theory Spec2Isabelle
  imports Complex_Main
begin

section \<open>Run-time values, errors and the logger\<close>

text \<open>
  The TypeScript types of the sources are erased at run time, and the tools cast their
  input without checking it (\<^verbatim>\<open>criteriaData.threshold as number\<close>). Wherever a claim is
  about such a value it is kept as a run-time value. Numbers are modelled as reals:
  \<^verbatim>\<open>NaN\<close>, the infinities and the rounding of IEEE doubles are outside the model.
  Strings are lists of 8-bit code units.
\<close>

datatype JSValue =
    JSUndefined
  | JSNull
  | JSBoolean bool
  | JSNumber real
  | JSString string
  | JSObject

text \<open>\<^verbatim>\<open>!v\<close> is \<open>\<not> truthy v\<close>; an object is always truthy.\<close>

fun truthy :: "JSValue \<Rightarrow> bool" where
  "truthy JSUndefined = False"
| "truthy JSNull = False"
| "truthy (JSBoolean b) = b"
| "truthy (JSNumber r) = (r \<noteq> 0)"
| "truthy (JSString s) = (s \<noteq> [])"
| "truthy JSObject = True"

text \<open>\<^verbatim>\<open>v ?? d\<close>: the default replaces only \<^verbatim>\<open>undefined\<close> and \<^verbatim>\<open>null\<close>.\<close>

fun nullish :: "JSValue \<Rightarrow> JSValue \<Rightarrow> JSValue" where
  "nullish JSUndefined d = d"
| "nullish JSNull d = d"
| "nullish v d = v"

text \<open>
  The exceptions of \<^verbatim>\<open>utils/errors.ts\<close> and the plain \<^verbatim>\<open>Error\<close>s the sources throw.
  A constructor keeps the arguments of the exception; where the message is built from
  strings only it is kept as the string. \<open>NegativeCurrentAttempt n\<close> is the \<^verbatim>\<open>Error\<close> of
  \<^verbatim>\<open>fromCurrentAttempt\<close> for a negative count, \<open>InvalidCriteriaUnknownStrategy v\<close> the
  \<^verbatim>\<open>InvalidCriteriaError\<close> whose reason is \<^verbatim>\<open>Unknown strategy:\<close> followed by the text of
  \<open>v\<close>, \<open>ENOENT p\<close> the error of the file system for a path that does not exist and
  \<open>IOError c\<close> any other error of the file system, with its code (\<^verbatim>\<open>EACCES\<close>, \<^verbatim>\<open>ENOSPC\<close>, ...).
\<close>

datatype error =
    Error string
  | NegativeCurrentAttempt int
  | MaxAttemptsExceededError string int
  | InvalidCriteriaError string
  | InvalidCriteriaUnknownStrategy JSValue
  | ValidationError string
  | MissionNotFoundError string
  | MissionExistsError string
  | RangeError
  | ENOENT string
  | IOError string
  | StatePersistenceError string error

text \<open>
  The calls of \<^verbatim>\<open>logger.warn\<close> made by the attempt counter, in order. The only warning
  of the counter is \<^verbatim>\<open>Approaching attempt limit: ${remaining} attempts remaining\<close>; the
  entry keeps \<open>remaining\<close>.
\<close>

datatype LogCall = WarnApproachingLimit int

section \<open>AttemptCounter\<close>

record AttemptCounterConfig =
  cfg_maxAttempts :: int
  cfg_warnThreshold :: "int option"

record AttemptCounter =
  ac_currentAttempt :: int
  ac_maxAttempts :: int
  ac_warnThreshold :: int

text \<open>The constructor: \<^verbatim>\<open>currentAttempt = 0\<close>, \<^verbatim>\<open>warnThreshold ?? 3\<close>.\<close>

definition newAttemptCounter :: "AttemptCounterConfig \<Rightarrow> AttemptCounter" where
  "newAttemptCounter cfg =
     \<lparr>ac_currentAttempt = 0,
      ac_maxAttempts = cfg_maxAttempts cfg,
      ac_warnThreshold = (case cfg_warnThreshold cfg of None \<Rightarrow> 3 | Some w \<Rightarrow> w)\<rparr>"

text \<open>
  \<^verbatim>\<open>fromCurrentAttempt\<close> takes and returns the log, as every function that could call
  the logger does: it checks the sign, normalises the configuration, checks the upper
  bound, builds the counter with the constructor and overwrites its private field.
\<close>

definition fromCurrentAttempt ::
  "int \<Rightarrow> AttemptCounterConfig \<Rightarrow> LogCall list \<Rightarrow> (error + AttemptCounter) \<times> LogCall list" where
  "fromCurrentAttempt currentAttempt cfg lg =
     (if currentAttempt < 0 then (Inl (NegativeCurrentAttempt currentAttempt), lg)
      else if currentAttempt > cfg_maxAttempts cfg
        then (Inl (MaxAttemptsExceededError ''mission'' (cfg_maxAttempts cfg)), lg)
      else (Inr ((newAttemptCounter cfg)\<lparr>ac_currentAttempt := currentAttempt\<rparr>), lg))"

definition getRemainingAttempts :: "AttemptCounter \<Rightarrow> int" where
  "getRemainingAttempts c = max 0 (ac_maxAttempts c - ac_currentAttempt c)"

text \<open>
  \<^verbatim>\<open>increment\<close> mutates the counter before it checks the bound, so the counter that
  comes back with the exception holds the overshoot.
\<close>

definition increment ::
  "AttemptCounter \<Rightarrow> LogCall list \<Rightarrow> (error + int) \<times> AttemptCounter \<times> LogCall list" where
  "increment c lg =
     (let c' = c\<lparr>ac_currentAttempt := ac_currentAttempt c + 1\<rparr> in
      if ac_currentAttempt c' > ac_maxAttempts c'
        then (Inl (MaxAttemptsExceededError ''mission'' (ac_maxAttempts c')), c', lg)
      else
        let remaining = getRemainingAttempts c' in
        if remaining \<le> ac_warnThreshold c' \<and> remaining > 0
          then (Inr (ac_currentAttempt c'), c', lg @ [WarnApproachingLimit remaining])
          else (Inr (ac_currentAttempt c'), c', lg))"

definition hasAttemptsRemaining :: "AttemptCounter \<Rightarrow> bool" where
  "hasAttemptsRemaining c = (ac_currentAttempt c < ac_maxAttempts c)"

definition reset :: "AttemptCounter \<Rightarrow> AttemptCounter" where
  "reset c = c\<lparr>ac_currentAttempt := 0\<rparr>"

definition isNearingLimit :: "AttemptCounter \<Rightarrow> bool" where
  "isNearingLimit c = (getRemainingAttempts c \<le> ac_warnThreshold c)"

section \<open>Strings and the regular expressions of the validators\<close>

text \<open>
  \<^verbatim>\<open>String.prototype.includes\<close>, \<^verbatim>\<open>toLowerCase\<close> (on code units below 256: the ASCII
  capitals and the Latin-1 capitals, the multiplication sign apart) and the character
  classes \<^verbatim>\<open>\d\<close> and \<^verbatim>\<open>\s\<close> of a regular expression without the unicode flag.
\<close>

fun startsWith :: "string \<Rightarrow> string \<Rightarrow> bool" where
  "startsWith s [] = True"
| "startsWith [] (k # ks) = False"
| "startsWith (c # cs) (k # ks) = (c = k \<and> startsWith cs ks)"

fun includes_str :: "string \<Rightarrow> string \<Rightarrow> bool" where
  "includes_str [] k = (k = [])"
| "includes_str (c # cs) k = (startsWith (c # cs) k \<or> includes_str cs k)"

definition toLowerChar :: "char \<Rightarrow> char" where
  "toLowerChar c =
     (let n = (of_char c :: nat) in
      if (65 \<le> n \<and> n \<le> 90) \<or> (192 \<le> n \<and> n \<le> 222 \<and> n \<noteq> 215)
      then char_of (n + 32) else c)"

definition toLowerCase :: "string \<Rightarrow> string" where
  "toLowerCase s = map toLowerChar s"

definition isDigit :: "char \<Rightarrow> bool" where
  "isDigit c = (let n = (of_char c :: nat) in 48 \<le> n \<and> n \<le> 57)"

definition isSpace :: "char \<Rightarrow> bool" where
  "isSpace c = (let n = (of_char c :: nat) in (9 \<le> n \<and> n \<le> 13) \<or> n = 32 \<or> n = 160)"

text \<open>\<^verbatim>\<open>parseInt(ds, 10)\<close> on a string of digits.\<close>

definition digitsToNat :: "string \<Rightarrow> nat" where
  "digitsToNat ds = foldl (\<lambda>acc c. 10 * acc + (of_char c - 48)) 0 ds"

text \<open>
  \<^verbatim>\<open>/-?\d+\.?\d*/\<close> at the start of a string: an optional minus sign that a digit must
  follow, all the digits, a dot if one follows, all the digits after it. Every
  quantifier is greedy and none has to give anything back, since what follows each of
  them can be empty or starts with a character outside its class.
\<close>

definition numberBody :: "string \<Rightarrow> string" where
  "numberBody s =
     (let ds = takeWhile isDigit s in
      case dropWhile isDigit s of
        [] \<Rightarrow> ds
      | c # r \<Rightarrow> if c = CHR ''.'' then ds @ CHR ''.'' # takeWhile isDigit r else ds)"

fun matchNumberAt :: "string \<Rightarrow> string option" where
  "matchNumberAt [] = None"
| "matchNumberAt (c # cs) =
     (if c = CHR ''-'' then
        (case cs of
           [] \<Rightarrow> None
         | d # _ \<Rightarrow> if isDigit d then Some (CHR ''-'' # numberBody cs) else None)
      else if isDigit c then Some (numberBody (c # cs)) else None)"

text \<open>\<^verbatim>\<open>text.match(re)\<close> without the global flag: the leftmost match.\<close>

fun firstMatch :: "(string \<Rightarrow> 'a option) \<Rightarrow> string \<Rightarrow> 'a option" where
  "firstMatch f [] = f []"
| "firstMatch f (c # cs) = (case f (c # cs) of Some m \<Rightarrow> Some m | None \<Rightarrow> firstMatch f cs)"

text \<open>\<^verbatim>\<open>parseFloat\<close> on a match of the expression above, as the exact decimal.\<close>

definition unsignedDecimal :: "string \<Rightarrow> real" where
  "unsignedDecimal s =
     (let ip = takeWhile isDigit s;
          fp = (case dropWhile isDigit s of
                  [] \<Rightarrow> []
                | c # r \<Rightarrow> if c = CHR ''.'' then takeWhile isDigit r else [])
      in real (digitsToNat ip) + real (digitsToNat fp) / 10 ^ length fp)"

definition parseFloat :: "string \<Rightarrow> real" where
  "parseFloat s =
     (case s of
        [] \<Rightarrow> 0
      | c # r \<Rightarrow> if c = CHR ''-'' then - unsignedDecimal r else unsignedDecimal s)"

text \<open>
  A literal under the \<^verbatim>\<open>i\<close> flag, at the start of a string; the rest of the string is
  returned. The literals here are lower-case ASCII.
\<close>

fun matchLiteralCI :: "string \<Rightarrow> string \<Rightarrow> string option" where
  "matchLiteralCI [] s = Some s"
| "matchLiteralCI (k # ks) [] = None"
| "matchLiteralCI (k # ks) (c # cs) =
     (if of_char c < (128::nat) \<and> toLowerChar c = k then matchLiteralCI ks cs else None)"

text \<open>\<^verbatim>\<open>[:\s]+(\d+)\<close> at the start of a string; the captured digits are returned.\<close>

definition isSeparator :: "char \<Rightarrow> bool" where
  "isSeparator c = (c = CHR '':'' \<or> isSpace c)"

definition separatorThenDigits :: "string \<Rightarrow> string option" where
  "separatorThenDigits s =
     (let seps = takeWhile isSeparator s;
          ds = takeWhile isDigit (dropWhile isSeparator s)
      in if seps \<noteq> [] \<and> ds \<noteq> [] then Some ds else None)"

text \<open>\<^verbatim>\<open>/exit\s*code[:\s]+(\d+)/i\<close> at the start of a string.\<close>

definition matchExitCodeAt :: "string \<Rightarrow> string option" where
  "matchExitCodeAt s =
     (case matchLiteralCI ''exit'' s of
        None \<Rightarrow> None
      | Some r1 \<Rightarrow>
          (case matchLiteralCI ''code'' (dropWhile isSpace r1) of
             None \<Rightarrow> None
           | Some r2 \<Rightarrow> separatorThenDigits r2))"

text \<open>\<^verbatim>\<open>/returned[:\s]+(\d+)/i\<close> and \<^verbatim>\<open>/status[:\s]+(\d+)/i\<close> at the start of a string.\<close>

definition matchWordNumberAt :: "string \<Rightarrow> string \<Rightarrow> string option" where
  "matchWordNumberAt w s =
     (case matchLiteralCI w s of None \<Rightarrow> None | Some r \<Rightarrow> separatorThenDigits r)"

text \<open>\<^verbatim>\<open>/^(\d+)$/\<close>: the whole string is digits, at least one.\<close>

definition matchBareNumber :: "string \<Rightarrow> string option" where
  "matchBareNumber s = (if s \<noteq> [] \<and> list_all isDigit s then Some s else None)"

section \<open>Validation criteria and results\<close>

text \<open>
  A \<^verbatim>\<open>Date\<close> is a time value in milliseconds, or the invalid date that
  \<^verbatim>\<open>new Date(s)\<close> gives for a string it cannot parse. \<^verbatim>\<open>new Date()\<close> reads the clock
  and is always valid: an operation takes the readings of the clock as a function
  \<open>clk\<close>, its \<open>i\<close>-th \<^verbatim>\<open>new Date()\<close> giving \<open>Date (clk i)\<close>.
\<close>

datatype Date = Date int | InvalidDate

record ValidationResult =
  passed :: bool
  actualValue :: JSValue
  expectedValue :: JSValue
  message :: string
  timestamp :: Date

text \<open>
  The criteria of a mission, at the types \<^verbatim>\<open>validateCriteria\<close> has checked
  (\<open>threshold\<close>, \<open>expectedCode\<close>, \<open>keyword\<close>, \<open>mustContain\<close>); the fields it does not check
  stay run-time values.
\<close>

datatype AnyCriteria =
    NumericCriteria (operator: JSValue) (threshold: real) (metricName: JSValue)
  | ExitCodeCriteria (expectedCode: real) (command: JSValue)
  | KeywordCriteria (keyword: string) (mustContain: bool) (caseSensitive: JSValue)

text \<open>
  A value inside a template literal. The text of a number (\<^verbatim>\<open>Number::toString\<close>) is a
  function of the run-time system, taken as the parameter \<open>numStr\<close>.
\<close>

fun jsToString :: "(real \<Rightarrow> string) \<Rightarrow> JSValue \<Rightarrow> string" where
  "jsToString numStr JSUndefined = ''undefined''"
| "jsToString numStr JSNull = ''null''"
| "jsToString numStr (JSBoolean b) = (if b then ''true'' else ''false'')"
| "jsToString numStr (JSNumber r) = numStr r"
| "jsToString numStr (JSString s) = s"
| "jsToString numStr JSObject = ''[object Object]''"

definition createResult :: "Date \<Rightarrow> bool \<Rightarrow> string \<Rightarrow> JSValue \<Rightarrow> JSValue \<Rightarrow> ValidationResult" where
  "createResult now p msg actual expected =
     \<lparr>passed = p, actualValue = actual, expectedValue = expected, message = msg, timestamp = now\<rparr>"

subsection \<open>NumericValidator\<close>

definition extractNumber :: "string \<Rightarrow> real option" where
  "extractNumber text = map_option parseFloat (firstMatch matchNumberAt text)"

definition compare :: "(real \<Rightarrow> string) \<Rightarrow> real \<Rightarrow> JSValue \<Rightarrow> real \<Rightarrow> error + bool" where
  "compare numStr actual op thr =
     (if op = JSString ''>'' then Inr (actual > thr)
      else if op = JSString ''<'' then Inr (actual < thr)
      else if op = JSString ''>='' then Inr (actual \<ge> thr)
      else if op = JSString ''<='' then Inr (actual \<le> thr)
      else if op = JSString ''=='' then Inr (\<bar>actual - thr\<bar> < 1 / 10000)
      else if op = JSString ''!='' then Inr (\<bar>actual - thr\<bar> \<ge> 1 / 10000)
      else Inl (ValidationError (''Unknown operator: '' @ jsToString numStr op)))"

definition negateOperator :: "JSValue \<Rightarrow> string" where
  "negateOperator op =
     (if op = JSString ''>'' then ''<=''
      else if op = JSString ''<'' then ''>=''
      else if op = JSString ''>='' then ''<''
      else if op = JSString ''<='' then ''>''
      else if op = JSString ''=='' then ''!=''
      else if op = JSString ''!='' then ''==''
      else ''undefined'')"

definition NumericValidator_validate ::
  "(real \<Rightarrow> string) \<Rightarrow> Date \<Rightarrow> JSValue \<Rightarrow> real \<Rightarrow> string \<Rightarrow> JSValue \<Rightarrow> error + ValidationResult" where
  "NumericValidator_validate numStr now op thr output v =
     (case (case v of JSNumber n \<Rightarrow> Some n | _ \<Rightarrow> extractNumber output) of
        None \<Rightarrow>
          Inr (createResult now False ''Failed to extract numeric value from output''
                 JSUndefined (JSNumber thr))
      | Some actual \<Rightarrow>
          (case compare numStr actual op thr of
             Inl e \<Rightarrow> Inl e
           | Inr p \<Rightarrow>
               Inr (createResult now p
                      (if p
                       then ''Validation passed: '' @ numStr actual @ '' '' @ jsToString numStr op
                              @ '' '' @ numStr thr
                       else ''Validation failed: '' @ numStr actual @ '' '' @ negateOperator op
                              @ '' '' @ numStr thr)
                      (JSNumber actual) (JSNumber thr))))"

subsection \<open>ExitCodeValidator\<close>

text \<open>The four patterns in the order of the source; the first that matches anywhere wins.\<close>

definition extractExitCode :: "string \<Rightarrow> real option" where
  "extractExitCode text =
     (case firstMatch matchExitCodeAt text of
        Some ds \<Rightarrow> Some (real (digitsToNat ds))
      | None \<Rightarrow>
     (case firstMatch (matchWordNumberAt ''returned'') text of
        Some ds \<Rightarrow> Some (real (digitsToNat ds))
      | None \<Rightarrow>
     (case firstMatch (matchWordNumberAt ''status'') text of
        Some ds \<Rightarrow> Some (real (digitsToNat ds))
      | None \<Rightarrow>
     (case matchBareNumber text of
        Some ds \<Rightarrow> Some (real (digitsToNat ds))
      | None \<Rightarrow> None))))"

definition ExitCodeValidator_validate ::
  "(real \<Rightarrow> string) \<Rightarrow> Date \<Rightarrow> real \<Rightarrow> string \<Rightarrow> JSValue \<Rightarrow> error + ValidationResult" where
  "ExitCodeValidator_validate numStr now expected output v =
     (case (case v of JSNumber n \<Rightarrow> Some n | _ \<Rightarrow> extractExitCode output) of
        None \<Rightarrow>
          Inr (createResult now False ''Failed to extract exit code from output''
                 JSUndefined (JSNumber expected))
      | Some actualCode \<Rightarrow>
          (let p = (actualCode = expected) in
           Inr (createResult now p
                  (if p then ''Command succeeded with exit code '' @ numStr actualCode
                   else ''Command failed with exit code '' @ numStr actualCode
                          @ '' (expected '' @ numStr expected @ '')'')
                  (JSNumber actualCode) (JSNumber expected))))"

subsection \<open>KeywordValidator\<close>

text \<open>The second parameter is named \<^verbatim>\<open>_value\<close> in the source and is never read.\<close>

definition KeywordValidator_validate ::
  "Date \<Rightarrow> string \<Rightarrow> bool \<Rightarrow> JSValue \<Rightarrow> string \<Rightarrow> JSValue \<Rightarrow> error + ValidationResult" where
  "KeywordValidator_validate now kw must cs output v =
     (let caseSens = truthy (nullish cs (JSBoolean True));
          searchText = (if caseSens then output else toLowerCase output);
          searchKeyword = (if caseSens then kw else toLowerCase kw);
          contains = includes_str searchText searchKeyword;
          p = (if must then contains else \<not> contains);
          quoted = [CHR 0x22] @ kw @ [CHR 0x22];
          msg = (if p
                 then (if must then ''Output contains required keyword: '' @ quoted
                       else ''Output correctly excludes keyword: '' @ quoted)
                 else (if must then ''Output missing required keyword: '' @ quoted
                       else ''Output unexpectedly contains keyword: '' @ quoted))
      in Inr (createResult now p msg
                (JSString (if contains then ''found'' else ''not found'')) (JSString kw)))"

text \<open>
  \<^verbatim>\<open>getValidator(criteria).validate(output, value)\<close>: the validator is chosen by the
  strategy of the criteria.
\<close>

fun validate ::
  "(real \<Rightarrow> string) \<Rightarrow> Date \<Rightarrow> AnyCriteria \<Rightarrow> string \<Rightarrow> JSValue \<Rightarrow> error + ValidationResult" where
  "validate numStr now (NumericCriteria op thr mn) output v =
     NumericValidator_validate numStr now op thr output v"
| "validate numStr now (ExitCodeCriteria expected cmd) output v =
     ExitCodeValidator_validate numStr now expected output v"
| "validate numStr now (KeywordCriteria kw must cs) output v =
     KeywordValidator_validate now kw must cs output v"

section \<open>Missions\<close>

datatype MissionState = PENDING | IN_PROGRESS | COMPLETED | FAILED | ABORTED

text \<open>The terminal states of the specification.\<close>

definition isTerminal :: "MissionState \<Rightarrow> bool" where
  "isTerminal st = (st = COMPLETED \<or> st = FAILED \<or> st = ABORTED)"

record Attempt =
  attemptNumber :: int
  attemptTimestamp :: Date
  attemptOutput :: string
  attemptValue :: JSValue
  validationResult :: ValidationResult
  duration :: "real option"

record MissionConfig =
  missionId :: string
  goal :: string
  criteria :: AnyCriteria
  maxAttempts :: "int option"
  enableCheckpoints :: "bool option"
  checkpointFrequency :: "int option"
  attemptTimeout :: "int option"

record Mission =
  config :: MissionConfig
  state :: MissionState
  createdAt :: Date
  updatedAt :: Date
  attempts :: "Attempt list"
  currentAttempt :: int
  completedAt :: "Date option"
  success :: "bool option"
  errorMessage :: "string option"

section \<open>MissionDefiner\<close>

text \<open>
  A criteria object as \<^verbatim>\<open>defineMission\<close> receives it: a property is read by its name, and
  a property the object does not have reads as \<^verbatim>\<open>undefined\<close>.
\<close>

type_synonym JSRecord = "string \<Rightarrow> JSValue"

definition object :: "(string \<times> JSValue) list \<Rightarrow> JSRecord" where
  "object kvs k = (case map_of kvs k of None \<Rightarrow> JSUndefined | Some v \<Rightarrow> v)"

text \<open>
  \<^verbatim>\<open>validateCriteria\<close>, check by check. The source returns nothing and the mission keeps the
  object; the model returns the object at the type the checks have established.
\<close>

definition validateCriteria :: "JSRecord \<Rightarrow> error + AnyCriteria" where
  "validateCriteria c =
     (if \<not> truthy (c ''strategy'') then Inl (InvalidCriteriaError ''Strategy must be specified'')
      else if c ''strategy'' = JSString ''NUMERIC'' then
        (case c ''threshold'' of
           JSNumber thr \<Rightarrow>
             if \<not> truthy (c ''operator'')
             then Inl (InvalidCriteriaError ''NUMERIC strategy requires operator'')
             else Inr (NumericCriteria (c ''operator'') thr (c ''metricName''))
         | _ \<Rightarrow> Inl (InvalidCriteriaError ''NUMERIC strategy requires threshold (number)''))
      else if c ''strategy'' = JSString ''EXIT_CODE'' then
        (case c ''expectedCode'' of
           JSNumber code \<Rightarrow> Inr (ExitCodeCriteria code (c ''command''))
         | _ \<Rightarrow> Inl (InvalidCriteriaError ''EXIT_CODE strategy requires expectedCode (number)''))
      else if c ''strategy'' = JSString ''KEYWORD'' then
        (case c ''keyword'' of
           JSString kw \<Rightarrow>
             if kw = []
             then Inl (InvalidCriteriaError ''KEYWORD strategy requires non-empty keyword (string)'')
             else (case c ''mustContain'' of
                     JSBoolean must \<Rightarrow> Inr (KeywordCriteria kw must (c ''caseSensitive''))
                   | _ \<Rightarrow> Inl (InvalidCriteriaError ''KEYWORD strategy requires mustContain (boolean)''))
         | _ \<Rightarrow> Inl (InvalidCriteriaError ''KEYWORD strategy requires non-empty keyword (string)''))
      else Inl (InvalidCriteriaUnknownStrategy (c ''strategy'')))"

record DefineMissionParams =
  p_goal :: string
  p_criteria :: JSRecord
  p_maxAttempts :: "int option"
  p_enableCheckpoints :: "bool option"
  p_checkpointFrequency :: "int option"
  p_attemptTimeout :: "int option"

text \<open>
  \<^verbatim>\<open>defineMission\<close>. The identifier that \<^verbatim>\<open>uuidv4()\<close> draws is the parameter \<open>uuid\<close>;
  \<open>clk 0\<close> and \<open>clk 1\<close> are the two readings of the clock.
\<close>

definition defineMission :: "string \<Rightarrow> (nat \<Rightarrow> int) \<Rightarrow> DefineMissionParams \<Rightarrow> error + Mission" where
  "defineMission uuid clk params =
     (case validateCriteria (p_criteria params) of
        Inl e \<Rightarrow> Inl e
      | Inr crit \<Rightarrow>
          Inr \<lparr>config =
                 \<lparr>missionId = uuid,
                  goal = p_goal params,
                  criteria = crit,
                  maxAttempts = Some (case p_maxAttempts params of None \<Rightarrow> 10 | Some n \<Rightarrow> n),
                  enableCheckpoints =
                    Some (case p_enableCheckpoints params of None \<Rightarrow> False | Some b \<Rightarrow> b),
                  checkpointFrequency =
                    Some (case p_checkpointFrequency params of None \<Rightarrow> 5 | Some n \<Rightarrow> n),
                  attemptTimeout = p_attemptTimeout params\<rparr>,
                state = PENDING,
                createdAt = Date (clk 0),
                updatedAt = Date (clk 1),
                attempts = [],
                currentAttempt = 0,
                completedAt = None,
                success = None,
                errorMessage = None\<rparr>)"

section \<open>StateManager: the in-memory store\<close>

text \<open>
  A JavaScript \<^verbatim>\<open>Map\<close> keeps its entries in insertion order and its keys distinct:
  \<^verbatim>\<open>set\<close> on a key the map has replaces the value in place, on a new key it appends.
\<close>

definition map_has :: "string \<Rightarrow> (string \<times> 'v) list \<Rightarrow> bool" where
  "map_has k m = (map_of m k \<noteq> None)"

fun map_set :: "string \<Rightarrow> 'v \<Rightarrow> (string \<times> 'v) list \<Rightarrow> (string \<times> 'v) list" where
  "map_set k v [] = [(k, v)]"
| "map_set k v (e # m) = (if fst e = k then (k, v) # m else e # map_set k v m)"

record Checkpoint =
  checkpointId :: string
  checkpointMissionId :: string
  checkpointTimestamp :: Date
  missionSnapshot :: Mission
  checkpointAttemptNumber :: int
  metadata :: "JSValue"

record StateConfig =
  stateDir :: string
  enablePersistence :: bool
  completedRetentionDays :: int
  failedRetentionDays :: int

text \<open>
  The fields of the manager and of its \<^verbatim>\<open>OrchestratorState\<close>. \<open>saveTimer\<close> tells whether a
  debounce timer is pending. Of the metrics only the counters are kept: the durations are
  wall-clock measurements.
\<close>

record StateManager =
  missions :: "(string \<times> Mission) list"
  checkpoints :: "(string \<times> Checkpoint) list"
  managerConfig :: StateConfig
  lastSaved :: "Date option"
  saveTimer :: bool
  isDirty :: bool
  isShuttingDown :: bool
  totalSaves :: nat
  totalLoads :: nat

definition newStateManager :: "StateConfig \<Rightarrow> StateManager" where
  "newStateManager cfg =
     \<lparr>missions = [], checkpoints = [], managerConfig = cfg, lastSaved = None,
      saveTimer = False, isDirty = False, isShuttingDown = False,
      totalSaves = 0, totalLoads = 0\<rparr>"

definition debouncedSave :: "StateManager \<Rightarrow> StateManager" where
  "debouncedSave sm =
     (if \<not> enablePersistence (managerConfig sm) \<or> isShuttingDown sm then sm
      else sm\<lparr>isDirty := True, saveTimer := True\<rparr>)"

definition addMission :: "Mission \<Rightarrow> StateManager \<Rightarrow> error + StateManager" where
  "addMission m sm =
     (if map_has (missionId (config m)) (missions sm)
      then Inl (MissionExistsError (missionId (config m)))
      else Inr (debouncedSave (sm\<lparr>missions := map_set (missionId (config m)) m (missions sm)\<rparr>)))"

definition getMission :: "string \<Rightarrow> StateManager \<Rightarrow> error + Mission" where
  "getMission mid sm =
     (case map_of (missions sm) mid of
        None \<Rightarrow> Inl (MissionNotFoundError mid)
      | Some m \<Rightarrow> Inr m)"

definition updateMission :: "Date \<Rightarrow> Mission \<Rightarrow> StateManager \<Rightarrow> error + StateManager" where
  "updateMission now m sm =
     (if \<not> map_has (missionId (config m)) (missions sm)
      then Inl (MissionNotFoundError (missionId (config m)))
      else Inr (debouncedSave
                 (sm\<lparr>missions := map_set (missionId (config m)) (m\<lparr>updatedAt := now\<rparr>) (missions sm)\<rparr>)))"

text \<open>
  \<^verbatim>\<open>getMission\<close> hands out the very object the map holds, and the tools assign to its
  fields: the map holds the changed mission from that moment, before and whether or not
  \<^verbatim>\<open>updateMission\<close> runs. \<open>mutate mid m'\<close> is that effect, for the mission fetched under
  \<open>mid\<close>.
\<close>

definition mutate :: "string \<Rightarrow> Mission \<Rightarrow> StateManager \<Rightarrow> StateManager" where
  "mutate mid m' sm = sm\<lparr>missions := map_set mid m' (missions sm)\<rparr>"

section \<open>The tools\<close>

text \<open>
  Each \<^verbatim>\<open>execute\<close> returns a JSON text; the model returns the object the text is made
  from, one constructor for each \<^verbatim>\<open>return JSON.stringify\<close> of the source, together with the
  store after the call. The \<^verbatim>\<open>feedback\<close> and \<^verbatim>\<open>progressSummary\<close> texts of a result are left
  out: they are built after the mission has been changed, from values of the model, by
  code that does not throw and changes nothing. The informational log lines of the tools
  are left out as well.
\<close>

subsection \<open>The tool \<^verbatim>\<open>define_mission\<close>\<close>

record DefineMissionInput =
  in_goal :: string
  in_strategy :: string
  in_criteria :: JSRecord
  in_maxAttempts :: "int option"
  in_enableCheckpoints :: "bool option"
  in_checkpointFrequency :: "int option"

definition parseCriteria :: "string \<Rightarrow> JSRecord \<Rightarrow> error + JSRecord" where
  "parseCriteria strategy criteriaData =
     (if strategy = ''NUMERIC'' then
        Inr (object [(''strategy'', JSString ''NUMERIC''),
                     (''operator'', criteriaData ''operator''),
                     (''threshold'', criteriaData ''threshold''),
                     (''metricName'', criteriaData ''metricName'')])
      else if strategy = ''EXIT_CODE'' then
        Inr (object [(''strategy'', JSString ''EXIT_CODE''),
                     (''expectedCode'', nullish (criteriaData ''expectedCode'') (JSNumber 0)),
                     (''command'', criteriaData ''command'')])
      else if strategy = ''KEYWORD'' then
        Inr (object [(''strategy'', JSString ''KEYWORD''),
                     (''keyword'', criteriaData ''keyword''),
                     (''mustContain'', nullish (criteriaData ''mustContain'') (JSBoolean True)),
                     (''caseSensitive'', nullish (criteriaData ''caseSensitive'') (JSBoolean True))])
      else Inl (Error (''Unknown strategy: '' @ strategy)))"

text \<open>
  \<open>DefineOk\<close> is \<^verbatim>\<open>{success: true, missionId, ...}\<close>; \<open>DefineError e\<close> is
  \<^verbatim>\<open>{success: false, error: e.message}\<close>, written by the \<^verbatim>\<open>catch\<close>.
\<close>

datatype DefineResult = DefineOk string | DefineError error

definition DefineMissionTool_execute ::
  "string \<Rightarrow> (nat \<Rightarrow> int) \<Rightarrow> DefineMissionInput \<Rightarrow> StateManager \<Rightarrow> DefineResult \<times> StateManager" where
  "DefineMissionTool_execute uuid clk inp sm =
     (case parseCriteria (in_strategy inp) (in_criteria inp) of
        Inl e \<Rightarrow> (DefineError e, sm)
      | Inr crit \<Rightarrow>
          (case defineMission uuid clk
                  \<lparr>p_goal = in_goal inp, p_criteria = crit, p_maxAttempts = in_maxAttempts inp,
                   p_enableCheckpoints = in_enableCheckpoints inp,
                   p_checkpointFrequency = in_checkpointFrequency inp,
                   p_attemptTimeout = None\<rparr> of
             Inl e \<Rightarrow> (DefineError e, sm)
           | Inr m \<Rightarrow>
               (case addMission (m\<lparr>state := IN_PROGRESS\<rparr>) sm of
                  Inl e \<Rightarrow> (DefineError e, sm)
                | Inr sm' \<Rightarrow> (DefineOk (missionId (config m)), sm'))))"

subsection \<open>The tool \<^verbatim>\<open>submit_attempt\<close>\<close>

record SubmitAttemptInput =
  sub_missionId :: string
  sub_output :: string
  sub_value :: JSValue

text \<open>
  The five results of \<^verbatim>\<open>SubmitAttemptTool.execute\<close>:
  \<^item> \<open>SubmitError e\<close>: \<^verbatim>\<open>{success: false, error: e.message}\<close>, from the outer \<^verbatim>\<open>catch\<close>;
  \<^item> \<open>SubmitNotInProgress st\<close>: \<^verbatim>\<open>{success: false, error: "Mission is not in progress
     (current state: st)"}\<close>;
  \<^item> \<open>SubmitMaxAttempts used max\<close>: \<^verbatim>\<open>{success: false, passed: false, final: true, message:
     "Mission failed: Maximum attempts exceeded", attemptsUsed, maxAttempts}\<close>;
  \<^item> \<open>SubmitCompleted used r\<close>: \<^verbatim>\<open>{success: true, passed: true, final: true, attemptsUsed,
     validationResult, ...}\<close>;
  \<^item> \<open>SubmitRetry remaining r\<close>: \<^verbatim>\<open>{success: true, passed: false, final: false,
     attemptsRemaining, validationResult, ...}\<close>.
\<close>

datatype SubmitResult =
    SubmitError error
  | SubmitNotInProgress MissionState
  | SubmitMaxAttempts int "int option"
  | SubmitCompleted int ValidationResult
  | SubmitRetry int ValidationResult

fun submit_success :: "SubmitResult \<Rightarrow> bool" where
  "submit_success (SubmitCompleted n r) = True"
| "submit_success (SubmitRetry n r) = True"
| "submit_success other = False"

fun submit_final :: "SubmitResult \<Rightarrow> bool option" where
  "submit_final (SubmitMaxAttempts n m) = Some True"
| "submit_final (SubmitCompleted n r) = Some True"
| "submit_final (SubmitRetry n r) = Some False"
| "submit_final other = None"

definition MAX_OUTPUT_LENGTH :: nat where
  "MAX_OUTPUT_LENGTH = 1024 * 1024"

definition storedOutput :: "string \<Rightarrow> string" where
  "storedOutput out =
     (if length out > MAX_OUTPUT_LENGTH
      then take MAX_OUTPUT_LENGTH out @ CHR 0x0A # ''... (truncated)''
      else out)"

definition SubmitAttemptTool_execute ::
  "(real \<Rightarrow> string) \<Rightarrow> (nat \<Rightarrow> int) \<Rightarrow> SubmitAttemptInput \<Rightarrow> StateManager
     \<Rightarrow> SubmitResult \<times> StateManager" where
  "SubmitAttemptTool_execute numStr clk inp sm =
     (case getMission (sub_missionId inp) sm of
        Inl e \<Rightarrow> (SubmitError e, sm)
      | Inr mission \<Rightarrow>
          if state mission \<noteq> IN_PROGRESS then (SubmitNotInProgress (state mission), sm)
          else
            (case fst (fromCurrentAttempt (currentAttempt mission)
                        \<lparr>cfg_maxAttempts = (case maxAttempts (config mission) of None \<Rightarrow> 10 | Some n \<Rightarrow> n),
                         cfg_warnThreshold = None\<rparr> []) of
               Inl e \<Rightarrow> (SubmitError e, sm)
             | Inr attemptCounter \<Rightarrow>
                 (case increment attemptCounter [] of
                    (Inl e, counter', lg) \<Rightarrow>
                      (let m1 = mission\<lparr>state := FAILED,
                                        completedAt := Some (Date (clk 0)),
                                        success := Some False,
                                        errorMessage := Some ''Maximum attempts exceeded''\<rparr>;
                           sm1 = mutate (sub_missionId inp) m1 sm
                       in case updateMission (Date (clk 1)) m1 sm1 of
                            Inl e' \<Rightarrow> (SubmitError e', sm1)
                          | Inr sm2 \<Rightarrow>
                              (SubmitMaxAttempts (currentAttempt m1) (maxAttempts (config m1)), sm2))
                  | (Inr attemptNo, counter', lg) \<Rightarrow>
                      (case validate numStr (Date (clk 0)) (criteria (config mission))
                              (sub_output inp) (sub_value inp) of
                         Inl e \<Rightarrow> (SubmitError e, sm)
                       | Inr vr \<Rightarrow>
                           (let attempt = \<lparr>attemptNumber = attemptNo,
                                           attemptTimestamp = Date (clk 1),
                                           attemptOutput = storedOutput (sub_output inp),
                                           attemptValue = sub_value inp,
                                           validationResult = vr,
                                           duration = None\<rparr>;
                                m1 = mission\<lparr>attempts := attempts mission @ [attempt],
                                             currentAttempt := attemptNo,
                                             updatedAt := Date (clk 2)\<rparr>
                            in if passed vr then
                                 (let m2 = m1\<lparr>state := COMPLETED,
                                              completedAt := Some (Date (clk 3)),
                                              success := Some True\<rparr>;
                                      sm1 = mutate (sub_missionId inp) m2 sm
                                  in case updateMission (Date (clk 4)) m2 sm1 of
                                       Inl e' \<Rightarrow> (SubmitError e', sm1)
                                     | Inr sm2 \<Rightarrow> (SubmitCompleted attemptNo vr, sm2))
                               else
                                 (let sm1 = mutate (sub_missionId inp) m1 sm
                                  in case updateMission (Date (clk 3)) m1 sm1 of
                                       Inl e' \<Rightarrow> (SubmitError e', sm1)
                                     | Inr sm2 \<Rightarrow>
                                         (SubmitRetry (getRemainingAttempts counter') vr, sm2)))))))"

text \<open>The attempt record that \<^verbatim>\<open>execute\<close> builds, for the statements about it.\<close>

definition newAttempt :: "(nat \<Rightarrow> int) \<Rightarrow> SubmitAttemptInput \<Rightarrow> int \<Rightarrow> ValidationResult \<Rightarrow> Attempt" where
  "newAttempt clk inp n vr =
     \<lparr>attemptNumber = n, attemptTimestamp = Date (clk 1),
      attemptOutput = storedOutput (sub_output inp), attemptValue = sub_value inp,
      validationResult = vr, duration = None\<rparr>"

subsection \<open>The tool \<^verbatim>\<open>abort_mission\<close>\<close>

record AbortMissionInput =
  ab_missionId :: string
  ab_reason :: "string option"

text \<open>
  \<open>AbortRejected st\<close> is \<^verbatim>\<open>{success: false, error: "Cannot abort mission in st state"}\<close>,
  \<open>AbortOk used reason\<close> is \<^verbatim>\<open>{success: true, attemptsUsed, reason, ...}\<close>. An empty
  reason is falsy, so \<^verbatim>\<open>input.reason || 'Manually aborted'\<close> replaces it too.
\<close>

datatype AbortResult =
    AbortError error
  | AbortRejected MissionState
  | AbortOk int string

definition abortReason :: "string option \<Rightarrow> string" where
  "abortReason r = (case r of None \<Rightarrow> ''Manually aborted''
                    | Some t \<Rightarrow> if t = [] then ''Manually aborted'' else t)"

definition AbortMissionTool_execute ::
  "(nat \<Rightarrow> int) \<Rightarrow> AbortMissionInput \<Rightarrow> StateManager \<Rightarrow> AbortResult \<times> StateManager" where
  "AbortMissionTool_execute clk inp sm =
     (case getMission (ab_missionId inp) sm of
        Inl e \<Rightarrow> (AbortError e, sm)
      | Inr mission \<Rightarrow>
          if state mission = COMPLETED \<or> state mission = FAILED
          then (AbortRejected (state mission), sm)
          else
            (let m1 = mission\<lparr>state := ABORTED,
                              completedAt := Some (Date (clk 0)),
                              success := Some False,
                              errorMessage := Some (abortReason (ab_reason inp))\<rparr>;
                 sm1 = mutate (ab_missionId inp) m1 sm
             in case updateMission (Date (clk 1)) m1 sm1 of
                  Inl e \<Rightarrow> (AbortError e, sm1)
                | Inr sm2 \<Rightarrow> (AbortOk (currentAttempt m1) (abortReason (ab_reason inp)), sm2)))"

section \<open>Example values\<close>

text \<open>A mission with one allowed attempt, already used, and a store that holds it.\<close>

definition ex_config :: MissionConfig where
  "ex_config =
     \<lparr>missionId = ''m1'', goal = ''raise the score'',
      criteria = NumericCriteria (JSString ''>'') 100 (JSString ''score''),
      maxAttempts = Some 1, enableCheckpoints = Some False, checkpointFrequency = Some 5,
      attemptTimeout = None\<rparr>"

definition ex_attempt :: Attempt where
  "ex_attempt =
     \<lparr>attemptNumber = 1, attemptTimestamp = Date 1001, attemptOutput = ''score 50'',
      attemptValue = JSNumber 50,
      validationResult =
        \<lparr>passed = False, actualValue = JSNumber 50, expectedValue = JSNumber 100,
         message = ''Validation failed'', timestamp = Date 1000\<rparr>,
      duration = None\<rparr>"

definition ex_mission :: Mission where
  "ex_mission =
     \<lparr>config = ex_config, state = IN_PROGRESS, createdAt = Date 0, updatedAt = Date 1003,
      attempts = [ex_attempt], currentAttempt = 1, completedAt = None, success = None,
      errorMessage = None\<rparr>"

definition ex_stateConfig :: StateConfig where
  "ex_stateConfig =
     \<lparr>stateDir = ''.state'', enablePersistence = True, completedRetentionDays = 30,
      failedRetentionDays = 90\<rparr>"

definition ex_store :: StateManager where
  "ex_store = (newStateManager ex_stateConfig)\<lparr>missions := [(''m1'', ex_mission)]\<rparr>"

definition ex_submit :: SubmitAttemptInput where
  "ex_submit = \<lparr>sub_missionId = ''m1'', sub_output = ''score 150'', sub_value = JSNumber 150\<rparr>"

text \<open>A clock that advances by one millisecond at each reading, from \<open>t\<close>.\<close>

definition ex_clock :: "int \<Rightarrow> nat \<Rightarrow> int" where
  "ex_clock t i = t + int i"

text \<open>
  A request that defines a mission with one allowed attempt, a failing submission for it,
  and the store after the request on a new manager, the identifier drawn being \<open>m1\<close>.
\<close>

definition ex_define :: DefineMissionInput where
  "ex_define =
     \<lparr>in_goal = ''raise the score'', in_strategy = ''NUMERIC'',
      in_criteria = object [(''operator'', JSString ''>''), (''threshold'', JSNumber 100),
                            (''metricName'', JSString ''score'')],
      in_maxAttempts = Some 1, in_enableCheckpoints = None, in_checkpointFrequency = None\<rparr>"

definition ex_submit_low :: SubmitAttemptInput where
  "ex_submit_low = \<lparr>sub_missionId = ''m1'', sub_output = ''score 50'', sub_value = JSNumber 50\<rparr>"

definition ex_defined :: StateManager where
  "ex_defined =
     snd (DefineMissionTool_execute ''m1'' (ex_clock 0) ex_define (newStateManager ex_stateConfig))"

text \<open>A mission that was aborted at time 500, and a second request to abort it.\<close>

definition ex_aborted :: Mission where
  "ex_aborted =
     ex_mission\<lparr>state := ABORTED, completedAt := Some (Date 500), success := Some False,
                errorMessage := Some ''first reason'', updatedAt := Date 501\<rparr>"

definition ex_abort :: AbortMissionInput where
  "ex_abort = \<lparr>ab_missionId = ''m1'', ab_reason = Some ''second reason''\<rparr>"

section \<open>Malformed criteria, as the tools see them\<close>

text \<open>The \<^verbatim>\<open>typeof\<close> tests of \<^verbatim>\<open>validateCriteria\<close> and the values \<^verbatim>\<open>??\<close> replaces.\<close>

fun isNumber :: "JSValue \<Rightarrow> bool" where
  "isNumber (JSNumber r) = True"
| "isNumber v = False"

fun isBoolean :: "JSValue \<Rightarrow> bool" where
  "isBoolean (JSBoolean b) = True"
| "isBoolean v = False"

fun isNonEmptyString :: "JSValue \<Rightarrow> bool" where
  "isNonEmptyString (JSString s) = (s \<noteq> [])"
| "isNonEmptyString v = False"

fun isNullish :: "JSValue \<Rightarrow> bool" where
  "isNullish JSUndefined = True"
| "isNullish JSNull = True"
| "isNullish v = False"

text \<open>
  The requests that \<^verbatim>\<open>define_mission\<close> refuses for their criteria: a threshold that is
  missing or not a number, an operator that is missing or falsy, an expected code or a
  \<open>mustContain\<close> that is given and has the wrong type, a keyword that is missing, not a
  string or empty.
\<close>

definition rejectedCriteria :: "string \<Rightarrow> JSRecord \<Rightarrow> bool" where
  "rejectedCriteria strategy cd =
     (strategy = ''NUMERIC'' \<and> (\<not> isNumber (cd ''threshold'') \<or> \<not> truthy (cd ''operator''))
      \<or> strategy = ''EXIT_CODE'' \<and> \<not> isNullish (cd ''expectedCode'') \<and> \<not> isNumber (cd ''expectedCode'')
      \<or> strategy = ''KEYWORD'' \<and>
          (\<not> isNonEmptyString (cd ''keyword'')
           \<or> \<not> isNullish (cd ''mustContain'') \<and> \<not> isBoolean (cd ''mustContain'')))"

text \<open>An \<open>EXIT_CODE\<close> request whose criteria object is empty.\<close>

definition ex_define_exit :: DefineMissionInput where
  "ex_define_exit =
     \<lparr>in_goal = ''tests pass'', in_strategy = ''EXIT_CODE'', in_criteria = object [],
      in_maxAttempts = None, in_enableCheckpoints = None, in_checkpointFrequency = None\<rparr>"

text \<open>A \<open>NUMERIC\<close> request whose threshold is a string.\<close>

definition ex_define_bad :: DefineMissionInput where
  "ex_define_bad =
     \<lparr>in_goal = ''raise the score'', in_strategy = ''NUMERIC'',
      in_criteria = object [(''operator'', JSString ''>''), (''threshold'', JSString ''100'')],
      in_maxAttempts = None, in_enableCheckpoints = None, in_checkpointFrequency = None\<rparr>"

section \<open>Sequences of operations\<close>

text \<open>
  A call of one of the three tools that change a mission, with what the environment
  supplies to it: the identifier drawn for a new mission and the readings of the clock.
\<close>

datatype Op =
    OpDefine string "nat \<Rightarrow> int" DefineMissionInput
  | OpSubmit "nat \<Rightarrow> int" SubmitAttemptInput
  | OpAbort "nat \<Rightarrow> int" AbortMissionInput

fun step :: "(real \<Rightarrow> string) \<Rightarrow> Op \<Rightarrow> StateManager \<Rightarrow> StateManager" where
  "step numStr (OpDefine uuid clk inp) sm = snd (DefineMissionTool_execute uuid clk inp sm)"
| "step numStr (OpSubmit clk inp) sm = snd (SubmitAttemptTool_execute numStr clk inp sm)"
| "step numStr (OpAbort clk inp) sm = snd (AbortMissionTool_execute clk inp sm)"

fun run :: "(real \<Rightarrow> string) \<Rightarrow> Op list \<Rightarrow> StateManager \<Rightarrow> StateManager" where
  "run numStr [] sm = sm"
| "run numStr (op # ops) sm = run numStr ops (step numStr op sm)"

text \<open>
  Whether a call is a submission for the mission \<open>k\<close> that is accepted (its result has
  \<open>success = true\<close>), and the number of such calls in a sequence that starts in \<open>sm\<close>.
\<close>

fun acceptedSubmit :: "(real \<Rightarrow> string) \<Rightarrow> string \<Rightarrow> Op \<Rightarrow> StateManager \<Rightarrow> bool" where
  "acceptedSubmit numStr k (OpSubmit clk inp) sm =
     (sub_missionId inp = k \<and> submit_success (fst (SubmitAttemptTool_execute numStr clk inp sm)))"
| "acceptedSubmit numStr k other sm = False"

fun acceptedSubmits :: "(real \<Rightarrow> string) \<Rightarrow> string \<Rightarrow> Op list \<Rightarrow> StateManager \<Rightarrow> nat" where
  "acceptedSubmits numStr k [] sm = 0"
| "acceptedSubmits numStr k (op # ops) sm =
     (if acceptedSubmit numStr k op sm then 1 else 0)
     + acceptedSubmits numStr k ops (step numStr op sm)"

text \<open>
  The invariant of the data model: \<open>currentAttempt\<close> is the number of attempts and the
  attempts are numbered 1, 2, ... in order.
\<close>

definition attemptsConsistent :: "Mission \<Rightarrow> bool" where
  "attemptsConsistent m =
     (currentAttempt m = int (length (attempts m))
      \<and> map attemptNumber (attempts m) = map int [1..<Suc (length (attempts m))])"

text \<open>
  The invariant of the store: the keys are distinct, as in any \<^verbatim>\<open>Map\<close>, every mission is
  kept under its own identifier, and every mission is consistent.
\<close>

definition storeConsistent :: "StateManager \<Rightarrow> bool" where
  "storeConsistent sm =
     (distinct (map fst (missions sm))
      \<and> list_all (\<lambda>(k, m). missionId (config m) = k \<and> attemptsConsistent m) (missions sm))"

text \<open>A passing submission for the example mission, and a run of three calls.\<close>

definition ex_define3 :: DefineMissionInput where
  "ex_define3 = ex_define\<lparr>in_maxAttempts := Some 3\<rparr>"

definition ex_ops :: "Op list" where
  "ex_ops =
     [OpDefine ''m1'' (ex_clock 0) ex_define3,
      OpSubmit (ex_clock 10) ex_submit_low,
      OpSubmit (ex_clock 20) ex_submit]"

text \<open>The number of attempts the store has recorded for the mission \<open>k\<close>.\<close>

definition recorded :: "StateManager \<Rightarrow> string \<Rightarrow> nat" where
  "recorded sm k = (case map_of (missions sm) k of None \<Rightarrow> 0 | Some m \<Rightarrow> length (attempts m))"

section \<open>Serialization\<close>

text \<open>
  The serialized form of the types of \<^verbatim>\<open>types/state.ts\<close>: every \<^verbatim>\<open>Date\<close> is a string, every
  \<^verbatim>\<open>Map\<close> a list of pairs.
\<close>

record SerializedValidationResult =
  s_passed :: bool
  s_message :: string
  s_actualValue :: JSValue
  s_expectedValue :: JSValue
  s_resultTimestamp :: string

record SerializedAttempt =
  s_attemptNumber :: int
  s_attemptTimestamp :: string
  s_output :: string
  s_value :: JSValue
  s_validationResult :: SerializedValidationResult
  s_duration :: "real option"

record SerializedMission =
  s_config :: MissionConfig
  s_state :: MissionState
  s_createdAt :: string
  s_updatedAt :: string
  s_attempts :: "SerializedAttempt list"
  s_currentAttempt :: int
  s_completedAt :: "string option"
  s_success :: "bool option"
  s_errorMessage :: "string option"

record SerializedCheckpoint =
  s_checkpointId :: string
  s_checkpointMissionId :: string
  s_checkpointTimestamp :: string
  s_missionSnapshot :: SerializedMission
  s_checkpointAttemptNumber :: int
  s_metadata :: JSValue

record SerializedState =
  version :: string
  snapshotTimestamp :: string
  serializedMissions :: "(string \<times> SerializedMission) list"
  serializedCheckpoints :: "(string \<times> SerializedCheckpoint) list"

definition STATE_VERSION :: string where
  "STATE_VERSION = ''1.0.0''"

text \<open>
  \<^verbatim>\<open>Date.prototype.toISOString\<close> and \<^verbatim>\<open>new Date(string)\<close> belong to the run-time system.
  They are the parameters \<open>toISO\<close>, from a time value to its text, and \<open>parseDate\<close>, from a
  text to the date it denotes. \<^verbatim>\<open>toISOString\<close> throws a \<^verbatim>\<open>RangeError\<close> on an invalid date.
\<close>

definition toISOString :: "(int \<Rightarrow> string) \<Rightarrow> Date \<Rightarrow> error + string" where
  "toISOString toISO d = (case d of Date t \<Rightarrow> Inr (toISO t) | InvalidDate \<Rightarrow> Inl RangeError)"

text \<open>Sequencing of computations that may throw, and a loop that stops at the first throw.\<close>

definition bindE :: "error + 'a \<Rightarrow> ('a \<Rightarrow> error + 'b) \<Rightarrow> error + 'b" where
  "bindE x f = (case x of Inl e \<Rightarrow> Inl e | Inr v \<Rightarrow> f v)"

fun mapE :: "('a \<Rightarrow> error + 'b) \<Rightarrow> 'a list \<Rightarrow> error + 'b list" where
  "mapE f [] = Inr []"
| "mapE f (x # xs) = bindE (f x) (\<lambda>y. bindE (mapE f xs) (\<lambda>ys. Inr (y # ys)))"

definition serializeAttempt :: "(int \<Rightarrow> string) \<Rightarrow> Attempt \<Rightarrow> error + SerializedAttempt" where
  "serializeAttempt toISO a =
     bindE (toISOString toISO (attemptTimestamp a)) (\<lambda>ts.
     bindE (toISOString toISO (timestamp (validationResult a))) (\<lambda>rts.
       Inr \<lparr>s_attemptNumber = attemptNumber a,
            s_attemptTimestamp = ts,
            s_output = attemptOutput a,
            s_value = attemptValue a,
            s_validationResult =
              \<lparr>s_passed = passed (validationResult a),
               s_message = message (validationResult a),
               s_actualValue = actualValue (validationResult a),
               s_expectedValue = expectedValue (validationResult a),
               s_resultTimestamp = rts\<rparr>,
            s_duration = duration a\<rparr>))"

definition serializeMission :: "(int \<Rightarrow> string) \<Rightarrow> Mission \<Rightarrow> error + SerializedMission" where
  "serializeMission toISO m =
     bindE (toISOString toISO (createdAt m)) (\<lambda>c.
     bindE (toISOString toISO (updatedAt m)) (\<lambda>u.
     bindE (mapE (serializeAttempt toISO) (attempts m)) (\<lambda>as.
     bindE (case completedAt m of
              None \<Rightarrow> Inr None
            | Some d \<Rightarrow> bindE (toISOString toISO d) (\<lambda>t. Inr (Some t))) (\<lambda>completed.
       Inr \<lparr>s_config = config m,
            s_state = state m,
            s_createdAt = c,
            s_updatedAt = u,
            s_attempts = as,
            s_currentAttempt = currentAttempt m,
            s_completedAt = completed,
            s_success = success m,
            s_errorMessage = errorMessage m\<rparr>))))"

definition serializeCheckpoint :: "(int \<Rightarrow> string) \<Rightarrow> Checkpoint \<Rightarrow> error + SerializedCheckpoint" where
  "serializeCheckpoint toISO c =
     bindE (toISOString toISO (checkpointTimestamp c)) (\<lambda>ts.
     bindE (serializeMission toISO (missionSnapshot c)) (\<lambda>snap.
       Inr \<lparr>s_checkpointId = checkpointId c,
            s_checkpointMissionId = checkpointMissionId c,
            s_checkpointTimestamp = ts,
            s_missionSnapshot = snap,
            s_checkpointAttemptNumber = checkpointAttemptNumber c,
            s_metadata = metadata c\<rparr>))"

text \<open>
  \<^verbatim>\<open>serializeState\<close>: the entries of the two maps in their order, then the version and the
  time \<open>now\<close> of the clock.
\<close>

definition serializeState :: "(int \<Rightarrow> string) \<Rightarrow> int \<Rightarrow> StateManager \<Rightarrow> error + SerializedState" where
  "serializeState toISO now sm =
     bindE (mapE (\<lambda>(k, m). bindE (serializeMission toISO m) (\<lambda>s. Inr (k, s))) (missions sm)) (\<lambda>ms.
     bindE (mapE (\<lambda>(k, c). bindE (serializeCheckpoint toISO c) (\<lambda>s. Inr (k, s))) (checkpoints sm)) (\<lambda>cs.
       Inr \<lparr>version = STATE_VERSION,
            snapshotTimestamp = toISO now,
            serializedMissions = ms,
            serializedCheckpoints = cs\<rparr>))"

definition deserializeAttempt :: "(string \<Rightarrow> Date) \<Rightarrow> SerializedAttempt \<Rightarrow> Attempt" where
  "deserializeAttempt parseDate s =
     \<lparr>attemptNumber = s_attemptNumber s,
      attemptTimestamp = parseDate (s_attemptTimestamp s),
      attemptOutput = s_output s,
      attemptValue = s_value s,
      validationResult =
        \<lparr>passed = s_passed (s_validationResult s),
         actualValue = s_actualValue (s_validationResult s),
         expectedValue = s_expectedValue (s_validationResult s),
         message = s_message (s_validationResult s),
         timestamp = parseDate (s_resultTimestamp (s_validationResult s))\<rparr>,
      duration = s_duration s\<rparr>"

text \<open>
  \<^verbatim>\<open>serialized.completedAt ? new Date(serialized.completedAt) : undefined\<close>: an empty
  string is falsy.
\<close>

definition deserializeMission :: "(string \<Rightarrow> Date) \<Rightarrow> SerializedMission \<Rightarrow> Mission" where
  "deserializeMission parseDate s =
     \<lparr>config = s_config s,
      state = s_state s,
      createdAt = parseDate (s_createdAt s),
      updatedAt = parseDate (s_updatedAt s),
      attempts = map (deserializeAttempt parseDate) (s_attempts s),
      currentAttempt = s_currentAttempt s,
      completedAt = (case s_completedAt s of
                       None \<Rightarrow> None
                     | Some t \<Rightarrow> if t = [] then None else Some (parseDate t)),
      success = s_success s,
      errorMessage = s_errorMessage s\<rparr>"

definition deserializeCheckpoint :: "(string \<Rightarrow> Date) \<Rightarrow> SerializedCheckpoint \<Rightarrow> Checkpoint" where
  "deserializeCheckpoint parseDate s =
     \<lparr>checkpointId = s_checkpointId s,
      checkpointMissionId = s_checkpointMissionId s,
      checkpointTimestamp = parseDate (s_checkpointTimestamp s),
      missionSnapshot = deserializeMission parseDate (s_missionSnapshot s),
      checkpointAttemptNumber = s_checkpointAttemptNumber s,
      metadata = s_metadata s\<rparr>"

text \<open>
  \<^verbatim>\<open>deserializeState\<close> clears the two maps and sets the entries of the snapshot one after
  the other.
\<close>

definition deserializeState :: "(string \<Rightarrow> Date) \<Rightarrow> SerializedState \<Rightarrow> StateManager \<Rightarrow> StateManager" where
  "deserializeState parseDate ser sm =
     sm\<lparr>missions :=
          foldl (\<lambda>acc (k, s). map_set k (deserializeMission parseDate s) acc) []
            (serializedMissions ser),
        checkpoints :=
          foldl (\<lambda>acc (k, s). map_set k (deserializeCheckpoint parseDate s) acc) []
            (serializedCheckpoints ser),
        lastSaved := Some (parseDate (snapshotTimestamp ser)),
        isDirty := False\<rparr>"

text \<open>
  A date is restorable when it is valid, its text is not empty and the run-time system
  parses its text back to it; ECMAScript guarantees both of the text of a valid date. A
  store is restorable when its maps have distinct keys, as every \<^verbatim>\<open>Map\<close> has, and all its
  dates are restorable, as every date made by \<^verbatim>\<open>new Date()\<close> is.
\<close>

fun restorable :: "(int \<Rightarrow> string) \<Rightarrow> (string \<Rightarrow> Date) \<Rightarrow> Date \<Rightarrow> bool" where
  "restorable toISO parseDate (Date t) = (toISO t \<noteq> [] \<and> parseDate (toISO t) = Date t)"
| "restorable toISO parseDate InvalidDate = False"

definition restorableAttempt :: "(int \<Rightarrow> string) \<Rightarrow> (string \<Rightarrow> Date) \<Rightarrow> Attempt \<Rightarrow> bool" where
  "restorableAttempt toISO parseDate a =
     (restorable toISO parseDate (attemptTimestamp a)
      \<and> restorable toISO parseDate (timestamp (validationResult a)))"

definition restorableMission :: "(int \<Rightarrow> string) \<Rightarrow> (string \<Rightarrow> Date) \<Rightarrow> Mission \<Rightarrow> bool" where
  "restorableMission toISO parseDate m =
     (restorable toISO parseDate (createdAt m) \<and> restorable toISO parseDate (updatedAt m)
      \<and> list_all (restorableAttempt toISO parseDate) (attempts m)
      \<and> (case completedAt m of None \<Rightarrow> True | Some d \<Rightarrow> restorable toISO parseDate d))"

definition restorableCheckpoint :: "(int \<Rightarrow> string) \<Rightarrow> (string \<Rightarrow> Date) \<Rightarrow> Checkpoint \<Rightarrow> bool" where
  "restorableCheckpoint toISO parseDate c =
     (restorable toISO parseDate (checkpointTimestamp c)
      \<and> restorableMission toISO parseDate (missionSnapshot c))"

definition restorableStore :: "(int \<Rightarrow> string) \<Rightarrow> (string \<Rightarrow> Date) \<Rightarrow> StateManager \<Rightarrow> bool" where
  "restorableStore toISO parseDate sm =
     (distinct (map fst (missions sm)) \<and> distinct (map fst (checkpoints sm))
      \<and> list_all (\<lambda>(k, m). restorableMission toISO parseDate m) (missions sm)
      \<and> list_all (\<lambda>(k, c). restorableCheckpoint toISO parseDate c) (checkpoints sm))"

text \<open>
  The texts of the dates of the examples, as \<^verbatim>\<open>toISOString\<close> prints them, and the two
  functions restricted to them.
\<close>

definition ex_isoTable :: "(int \<times> string) list" where
  "ex_isoTable =
     [(0, ''1970-01-01T00:00:00.000Z''),
      (500, ''1970-01-01T00:00:00.500Z''),
      (501, ''1970-01-01T00:00:00.501Z''),
      (1000, ''1970-01-01T00:00:01.000Z''),
      (1001, ''1970-01-01T00:00:01.001Z''),
      (1003, ''1970-01-01T00:00:01.003Z''),
      (2000, ''1970-01-01T00:00:02.000Z''),
      (3000, ''1970-01-01T00:00:03.000Z'')]"

definition ex_toISO :: "int \<Rightarrow> string" where
  "ex_toISO t = (case map_of ex_isoTable t of None \<Rightarrow> [] | Some s \<Rightarrow> s)"

definition ex_parseDate :: "string \<Rightarrow> Date" where
  "ex_parseDate s =
     (case map_of (map (\<lambda>(t, s). (s, t)) ex_isoTable) s of None \<Rightarrow> InvalidDate | Some t \<Rightarrow> Date t)"

text \<open>A store with a mission that has an attempt and a completion date, and a checkpoint.\<close>

definition ex_checkpoint :: Checkpoint where
  "ex_checkpoint =
     \<lparr>checkpointId = ''c1'', checkpointMissionId = ''m1'', checkpointTimestamp = Date 1003,
      missionSnapshot = ex_mission, checkpointAttemptNumber = 1, metadata = JSUndefined\<rparr>"

definition ex_fresh :: Mission where
  "ex_fresh =
     ex_mission\<lparr>config := ex_config\<lparr>missionId := ''m0''\<rparr>, attempts := [], currentAttempt := 0\<rparr>"

definition ex_store2 :: StateManager where
  "ex_store2 =
     (newStateManager ex_stateConfig)
       \<lparr>missions := [(''m1'', ex_aborted), (''m0'', ex_fresh)],
        checkpoints := [(''c1'', ex_checkpoint)]\<rparr>"

section \<open>The state files\<close>

text \<open>
  The directory of the state as a map from paths to contents. A call of \<^verbatim>\<open>fs\<close> fails for
  a file that is not there, and it fails whenever the file system refuses it
  (permissions, a full disk, a directory in the way): whether it does, and with which
  error, is given to each call by the environment. A refused write or copy leaves its
  destination as it was, or holding a partial content. \<^verbatim>\<open>path.join\<close> is modelled on the
  one property that is used: the three file names give three different paths.
\<close>

type_synonym FileSystem = "string \<Rightarrow> string option"

datatype IOFault = NoFault | Fault error | FaultLeaving error string

definition path_join :: "string \<Rightarrow> string \<Rightarrow> string" where
  "path_join dir name = dir @ ''/'' @ name"

definition STATE_FILE :: string where "STATE_FILE = ''state.json''"
definition STATE_BACKUP :: string where "STATE_BACKUP = ''state.json.bak''"
definition STATE_TEMP :: string where "STATE_TEMP = ''state.json.tmp''"

text \<open>A failing write or copy returns its error with the files as it leaves them.\<close>

definition writeFile ::
  "IOFault \<Rightarrow> string \<Rightarrow> string \<Rightarrow> FileSystem \<Rightarrow> error \<times> FileSystem + FileSystem" where
  "writeFile fault p content fs =
     (case fault of
        NoFault \<Rightarrow> Inr (fs(p \<mapsto> content))
      | Fault e \<Rightarrow> Inl (e, fs)
      | FaultLeaving e part \<Rightarrow> Inl (e, fs(p \<mapsto> part)))"

definition access :: "error option \<Rightarrow> string \<Rightarrow> FileSystem \<Rightarrow> error + unit" where
  "access fault p fs =
     (case fault of
        Some e \<Rightarrow> Inl e
      | None \<Rightarrow> (case fs p of None \<Rightarrow> Inl (ENOENT p) | Some c \<Rightarrow> Inr ()))"

definition copyFile ::
  "IOFault \<Rightarrow> string \<Rightarrow> string \<Rightarrow> FileSystem \<Rightarrow> error \<times> FileSystem + FileSystem" where
  "copyFile fault src dst fs =
     (case fault of
        NoFault \<Rightarrow> (case fs src of None \<Rightarrow> Inl (ENOENT src, fs) | Some c \<Rightarrow> Inr (fs(dst \<mapsto> c)))
      | Fault e \<Rightarrow> Inl (e, fs)
      | FaultLeaving e part \<Rightarrow> Inl (e, fs(dst \<mapsto> part)))"

definition rename :: "error option \<Rightarrow> string \<Rightarrow> string \<Rightarrow> FileSystem \<Rightarrow> error + FileSystem" where
  "rename fault src dst fs =
     (case fault of
        Some e \<Rightarrow> Inl e
      | None \<Rightarrow>
          (case fs src of
             None \<Rightarrow> Inl (ENOENT src)
           | Some c \<Rightarrow> Inr ((fs(src := None))(dst \<mapsto> c))))"

text \<open>What the environment does to the four calls of one \<^verbatim>\<open>saveState\<close>.\<close>

record IOFaults =
  writeFault :: IOFault
  accessFault :: "error option"
  copyFault :: IOFault
  renameFault :: "error option"


text \<open>
  \<^verbatim>\<open>saveState\<close>. \<^verbatim>\<open>JSON.stringify\<close> is the parameter \<open>stringify\<close>. The result is the outcome,
  the manager and the files after the call; an exception leaves the files as the steps
  before it have made them. The inner \<^verbatim>\<open>try\<close> has an empty \<^verbatim>\<open>catch\<close>: a failure of
  \<^verbatim>\<open>access\<close> or of \<^verbatim>\<open>copyFile\<close>, whatever its cause, is dropped and the rename follows.
\<close>

definition saveState ::
  "(int \<Rightarrow> string) \<Rightarrow> (SerializedState \<Rightarrow> string) \<Rightarrow> (nat \<Rightarrow> int) \<Rightarrow> IOFaults \<Rightarrow> StateManager
     \<Rightarrow> FileSystem \<Rightarrow> (error + unit) \<times> StateManager \<times> FileSystem" where
  "saveState toISO stringify clk io sm fs =
     (let stateFile = path_join (stateDir (managerConfig sm)) STATE_FILE;
          tempFile = path_join (stateDir (managerConfig sm)) STATE_TEMP;
          backupFile = path_join (stateDir (managerConfig sm)) STATE_BACKUP
      in case serializeState toISO (clk 0) sm of
           Inl e \<Rightarrow> (Inl (StatePersistenceError ''save'' e), sm, fs)
         | Inr serialized \<Rightarrow>
             (case writeFile (writeFault io) tempFile (stringify serialized) fs of
                Inl (e, fsw) \<Rightarrow> (Inl (StatePersistenceError ''save'' e), sm, fsw)
              | Inr fs1 \<Rightarrow>
                  (let fs2 = (case access (accessFault io) stateFile fs1 of
                                Inl e \<Rightarrow> fs1
                              | Inr u \<Rightarrow>
                                  (case copyFile (copyFault io) stateFile backupFile fs1 of
                                     Inl (e, fsc) \<Rightarrow> fsc
                                   | Inr fs' \<Rightarrow> fs'))
                   in case rename (renameFault io) tempFile stateFile fs2 of
                        Inl e \<Rightarrow> (Inl (StatePersistenceError ''save'' e), sm, fs2)
                      | Inr fs3 \<Rightarrow>
                          (Inr (),
                           sm\<lparr>lastSaved := Some (Date (clk 1)), isDirty := False,
                              totalSaves := totalSaves sm + 1\<rparr>,
                           fs3))))"

text \<open>\<^verbatim>\<open>forceSave\<close>: refused without persistence; otherwise the pending timer is cleared.\<close>

definition forceSave ::
  "(int \<Rightarrow> string) \<Rightarrow> (SerializedState \<Rightarrow> string) \<Rightarrow> (nat \<Rightarrow> int) \<Rightarrow> IOFaults \<Rightarrow> StateManager
     \<Rightarrow> FileSystem \<Rightarrow> (error + unit) \<times> StateManager \<times> FileSystem" where
  "forceSave toISO stringify clk io sm fs =
     (if \<not> enablePersistence (managerConfig sm)
      then (Inl (StatePersistenceError ''force-save'' (Error ''Persistence is not enabled'')), sm, fs)
      else saveState toISO stringify clk io (sm\<lparr>saveTimer := False\<rparr>) fs)"




text \<open>
  A snapshot whose one mission has a creation date that is no date, as a damaged state
  file would give it after \<^verbatim>\<open>JSON.parse\<close>.
\<close>

definition ex_damagedSnapshot :: SerializedState where
  "ex_damagedSnapshot =
     \<lparr>version = STATE_VERSION,
      snapshotTimestamp = ''1970-01-01T00:00:02.000Z'',
      serializedMissions =
        [(''m0'',
          \<lparr>s_config = ex_config\<lparr>missionId := ''m0''\<rparr>,
           s_state = IN_PROGRESS,
           s_createdAt = ''not a date'',
           s_updatedAt = ''1970-01-01T00:00:01.003Z'',
           s_attempts = [],
           s_currentAttempt = 0,
           s_completedAt = None,
           s_success = None,
           s_errorMessage = None\<rparr>)],
      serializedCheckpoints = []\<rparr>"

section \<open>Properties of the attempt counter\<close>

lemma fromCurrentAttempt_log: "snd (fromCurrentAttempt n cfg lg) = lg"
  by (simp add: fromCurrentAttempt_def)

lemma fromCurrentAttempt_ok:
  "0 \<le> n \<Longrightarrow> n \<le> cfg_maxAttempts cfg \<Longrightarrow>
   fst (fromCurrentAttempt n cfg lg) = Inr ((newAttemptCounter cfg)\<lparr>ac_currentAttempt := n\<rparr>)"
  by (simp add: fromCurrentAttempt_def)

lemma increment_at_max:
  "ac_currentAttempt c = ac_maxAttempts c \<Longrightarrow>
   fst (increment c lg) = Inl (MaxAttemptsExceededError ''mission'' (ac_maxAttempts c))"
  by (simp add: increment_def Let_def)

lemma increment_below_max:
  "ac_currentAttempt c < ac_maxAttempts c \<Longrightarrow> fst (increment c lg) = Inr (ac_currentAttempt c + 1)"
  by (simp add: increment_def Let_def)

text \<open>
  Claim C9. Restoring a counter from a known count \<open>n\<close> succeeds exactly when
  \<open>0 \<le> n \<le> maxAttempts\<close> (so \<open>n = maxAttempts\<close> is legal), fails with the error for a
  negative count below and with \<open>MaxAttemptsExceededError\<close> above, yields a counter whose
  current attempt is \<open>n\<close>, and leaves the log as it was: no warning is emitted. At 8 of 10
  with \<open>warnThreshold = 3\<close> the restoration logs nothing and the one increment that
  follows returns 9 and logs exactly one warning.
\<close>

theorem C9_restore_counter:
  "((\<exists>c. fst (fromCurrentAttempt n cfg lg) = Inr c) = (0 \<le> n \<and> n \<le> cfg_maxAttempts cfg))
   \<and> fst (fromCurrentAttempt n cfg lg) =
       (if n < 0 then Inl (NegativeCurrentAttempt n)
        else if cfg_maxAttempts cfg < n then Inl (MaxAttemptsExceededError ''mission'' (cfg_maxAttempts cfg))
        else Inr \<lparr>ac_currentAttempt = n, ac_maxAttempts = cfg_maxAttempts cfg,
                  ac_warnThreshold = (case cfg_warnThreshold cfg of None \<Rightarrow> 3 | Some w \<Rightarrow> w)\<rparr>)
   \<and> snd (fromCurrentAttempt n cfg lg) = lg
   \<and> fromCurrentAttempt 8 \<lparr>cfg_maxAttempts = 10, cfg_warnThreshold = Some 3\<rparr> [] =
       (Inr \<lparr>ac_currentAttempt = 8, ac_maxAttempts = 10, ac_warnThreshold = 3\<rparr>, [])
   \<and> increment \<lparr>ac_currentAttempt = 8, ac_maxAttempts = 10, ac_warnThreshold = 3\<rparr> [] =
       (Inr 9, \<lparr>ac_currentAttempt = 9, ac_maxAttempts = 10, ac_warnThreshold = 3\<rparr>,
        [WarnApproachingLimit 1])"
  by (auto simp: fromCurrentAttempt_def newAttemptCounter_def increment_def
      getRemainingAttempts_def Let_def)

section \<open>The store as a map\<close>

lemma map_of_map_set: "map_of (map_set k v m) = (map_of m)(k \<mapsto> v)"
  by (induction m) (auto simp: fun_eq_iff)

lemma map_set_map_set: "map_set k v' (map_set k v m) = map_set k v' m"
  by (induction m) auto

lemma map_has_map_set: "map_has k' (map_set k v m) = (k' = k \<or> map_has k' m)"
  by (simp add: map_has_def map_of_map_set)

lemma map_fst_map_set_present:
  "map_of m k = Some v0 \<Longrightarrow> map fst (map_set k v m) = map fst m"
  by (induction m) (auto split: if_splits)

section \<open>Submitting when the attempts are used up\<close>

lemma submit_exhausted:
  assumes "map_of (missions sm) (sub_missionId inp) = Some m"
    and "missionId (config m) = sub_missionId inp"
    and "state m = IN_PROGRESS"
    and "0 \<le> currentAttempt m"
    and "currentAttempt m = (case maxAttempts (config m) of None \<Rightarrow> 10 | Some n \<Rightarrow> n)"
  shows "SubmitAttemptTool_execute numStr clk inp sm =
     (SubmitMaxAttempts (currentAttempt m) (maxAttempts (config m)),
      debouncedSave (sm\<lparr>missions := map_set (sub_missionId inp)
         (m\<lparr>state := FAILED, completedAt := Some (Date (clk 0)), success := Some False,
            errorMessage := Some ''Maximum attempts exceeded'', updatedAt := Date (clk 1)\<rparr>)
         (missions sm)\<rparr>))"
  using assms
  by (simp add: SubmitAttemptTool_execute_def getMission_def fromCurrentAttempt_def
      newAttemptCounter_def increment_def Let_def updateMission_def mutate_def
      map_has_map_set map_set_map_set)

lemma missions_debouncedSave: "missions (debouncedSave sm) = missions sm"
  by (simp add: debouncedSave_def)

lemma checkpoints_debouncedSave: "checkpoints (debouncedSave sm) = checkpoints sm"
  by (simp add: debouncedSave_def)

text \<open>
  Claim C2. A mission in state \<open>IN_PROGRESS\<close>, stored under its identifier, whose
  \<open>currentAttempt\<close> (a count, so not negative) equals its maximum (\<open>maxAttempts\<close>, 10 when
  unset): the next submit returns the terminal failure result (\<open>final = true\<close>,
  \<open>success = false\<close>), neither a validation result nor an error from the \<open>catch\<close>; the stored
  mission is the old one with \<open>state = FAILED\<close>, \<open>completedAt\<close> the clock's reading,
  \<open>success = false\<close>, \<open>errorMessage = "Maximum attempts exceeded"\<close> and \<open>updatedAt\<close> set by
  \<open>updateMission\<close>, which also marks the store dirty and arms the save timer when
  persistence is on and the manager is not shutting down.
\<close>

theorem C2_exhausted_submit_fails_mission:
  assumes "map_of (missions sm) (sub_missionId inp) = Some m"
    and "missionId (config m) = sub_missionId inp"
    and "state m = IN_PROGRESS"
    and "0 \<le> currentAttempt m"
    and "currentAttempt m = (case maxAttempts (config m) of None \<Rightarrow> 10 | Some n \<Rightarrow> n)"
  shows "fst (SubmitAttemptTool_execute numStr clk inp sm) =
           SubmitMaxAttempts (currentAttempt m) (maxAttempts (config m))
       \<and> submit_final (fst (SubmitAttemptTool_execute numStr clk inp sm)) = Some True
       \<and> \<not> submit_success (fst (SubmitAttemptTool_execute numStr clk inp sm))
       \<and> map_of (missions (snd (SubmitAttemptTool_execute numStr clk inp sm))) (sub_missionId inp) =
           Some (m\<lparr>state := FAILED, completedAt := Some (Date (clk 0)), success := Some False,
                   errorMessage := Some ''Maximum attempts exceeded'', updatedAt := Date (clk 1)\<rparr>)
       \<and> (enablePersistence (managerConfig sm) \<and> \<not> isShuttingDown sm \<longrightarrow>
            isDirty (snd (SubmitAttemptTool_execute numStr clk inp sm))
            \<and> saveTimer (snd (SubmitAttemptTool_execute numStr clk inp sm)))"
  unfolding submit_exhausted [OF assms]
  by (simp add: missions_debouncedSave map_of_map_set) (simp add: debouncedSave_def)

theorem C2_witness:
  "fst (SubmitAttemptTool_execute (\<lambda>r. []) (ex_clock 2000) ex_submit ex_store) =
      SubmitMaxAttempts 1 (Some 1)
   \<and> map_of (missions (snd (SubmitAttemptTool_execute (\<lambda>r. []) (ex_clock 2000) ex_submit ex_store))) ''m1'' =
      Some (ex_mission\<lparr>state := FAILED, completedAt := Some (Date 2000), success := Some False,
              errorMessage := Some ''Maximum attempts exceeded'', updatedAt := Date 2001\<rparr>)
   \<and> isDirty (snd (SubmitAttemptTool_execute (\<lambda>r. []) (ex_clock 2000) ex_submit ex_store))"
proof -
  have h1: "map_of (missions ex_store) (sub_missionId ex_submit) = Some ex_mission"
    by (simp add: ex_store_def ex_submit_def)
  have h2: "missionId (config ex_mission) = sub_missionId ex_submit"
    by (simp add: ex_mission_def ex_config_def ex_submit_def)
  have h3: "state ex_mission = IN_PROGRESS"
    by (simp add: ex_mission_def)
  have h4: "0 \<le> currentAttempt ex_mission"
    by (simp add: ex_mission_def)
  have h5: "currentAttempt ex_mission =
      (case maxAttempts (config ex_mission) of None \<Rightarrow> 10 | Some n \<Rightarrow> n)"
    by (simp add: ex_mission_def ex_config_def)
  have h6: "enablePersistence (managerConfig ex_store) \<and> \<not> isShuttingDown ex_store"
    by (simp add: ex_store_def ex_stateConfig_def newStateManager_def)
  show ?thesis
    using C2_exhausted_submit_fails_mission [OF h1 h2 h3 h4 h5, of "\<lambda>r. []" "ex_clock 2000"] h6
    by (simp add: ex_mission_def ex_config_def ex_submit_def ex_clock_def)
qed

text \<open>
  Claim C10. On the same path (the mission is in progress, the counter is restored and
  its increment fails) no attempt is appended: the stored mission is the old one changed
  in \<open>state\<close>, \<open>completedAt\<close>, \<open>success\<close>, \<open>errorMessage\<close> and \<open>updatedAt\<close> only, so
  \<open>attempts\<close>, \<open>currentAttempt\<close>, \<open>config\<close> and \<open>createdAt\<close> are as before; every other mission,
  the order of the keys and the checkpoints are untouched.
\<close>

theorem C10_exhausted_submit_frame:
  assumes "map_of (missions sm) (sub_missionId inp) = Some m"
    and "missionId (config m) = sub_missionId inp"
    and "state m = IN_PROGRESS"
    and "0 \<le> currentAttempt m"
    and "currentAttempt m = (case maxAttempts (config m) of None \<Rightarrow> 10 | Some n \<Rightarrow> n)"
  shows "\<exists>m'. map_of (missions (snd (SubmitAttemptTool_execute numStr clk inp sm))) (sub_missionId inp) = Some m'
       \<and> attempts m' = attempts m
       \<and> currentAttempt m' = currentAttempt m
       \<and> config m' = config m
       \<and> createdAt m' = createdAt m
       \<and> m' = m\<lparr>state := state m', completedAt := completedAt m', success := success m',
                 errorMessage := errorMessage m', updatedAt := updatedAt m'\<rparr>
       \<and> (\<forall>k. k \<noteq> sub_missionId inp \<longrightarrow>
             map_of (missions (snd (SubmitAttemptTool_execute numStr clk inp sm))) k =
             map_of (missions sm) k)
       \<and> map fst (missions (snd (SubmitAttemptTool_execute numStr clk inp sm))) = map fst (missions sm)
       \<and> checkpoints (snd (SubmitAttemptTool_execute numStr clk inp sm)) = checkpoints sm"
  unfolding submit_exhausted [OF assms]
  using assms(1)
  by (simp add: missions_debouncedSave checkpoints_debouncedSave map_of_map_set
      map_fst_map_set_present)

theorem C10_witness:
  "\<exists>m'. map_of (missions (snd (SubmitAttemptTool_execute (\<lambda>r. []) (ex_clock 2000) ex_submit ex_store))) ''m1'' = Some m'
       \<and> attempts m' = [ex_attempt] \<and> currentAttempt m' = 1"
proof -
  have h1: "map_of (missions ex_store) (sub_missionId ex_submit) = Some ex_mission"
    by (simp add: ex_store_def ex_submit_def)
  have h2: "missionId (config ex_mission) = sub_missionId ex_submit"
    by (simp add: ex_mission_def ex_config_def ex_submit_def)
  have h3: "state ex_mission = IN_PROGRESS"
    by (simp add: ex_mission_def)
  have h4: "0 \<le> currentAttempt ex_mission"
    by (simp add: ex_mission_def)
  have h5: "currentAttempt ex_mission =
      (case maxAttempts (config ex_mission) of None \<Rightarrow> 10 | Some n \<Rightarrow> n)"
    by (simp add: ex_mission_def ex_config_def)
  from C10_exhausted_submit_frame [OF h1 h2 h3 h4 h5, of "\<lambda>r. []" "ex_clock 2000"]
  obtain m' where
    "map_of (missions (snd (SubmitAttemptTool_execute (\<lambda>r. []) (ex_clock 2000) ex_submit ex_store)))
       (sub_missionId ex_submit) = Some m'"
    and "attempts m' = attempts ex_mission" and "currentAttempt m' = currentAttempt ex_mission"
    by blast
  then show ?thesis
    by (simp add: ex_submit_def ex_mission_def)
qed

section \<open>The paths of a submission\<close>

lemma submit_accepted:
  assumes "map_of (missions sm) (sub_missionId inp) = Some m"
    and "missionId (config m) = sub_missionId inp"
    and "state m = IN_PROGRESS"
    and "0 \<le> currentAttempt m"
    and "currentAttempt m < (case maxAttempts (config m) of None \<Rightarrow> 10 | Some n \<Rightarrow> n)"
    and "validate numStr (Date (clk 0)) (criteria (config m)) (sub_output inp) (sub_value inp) = Inr vr"
  shows "SubmitAttemptTool_execute numStr clk inp sm =
     (if passed vr then
        (SubmitCompleted (currentAttempt m + 1) vr,
         debouncedSave (sm\<lparr>missions := map_set (sub_missionId inp)
           (m\<lparr>attempts := attempts m @ [newAttempt clk inp (currentAttempt m + 1) vr],
              currentAttempt := currentAttempt m + 1,
              state := COMPLETED, completedAt := Some (Date (clk 3)), success := Some True,
              updatedAt := Date (clk 4)\<rparr>)
           (missions sm)\<rparr>))
      else
        (SubmitRetry ((case maxAttempts (config m) of None \<Rightarrow> 10 | Some n \<Rightarrow> n) - (currentAttempt m + 1)) vr,
         debouncedSave (sm\<lparr>missions := map_set (sub_missionId inp)
           (m\<lparr>attempts := attempts m @ [newAttempt clk inp (currentAttempt m + 1) vr],
              currentAttempt := currentAttempt m + 1,
              updatedAt := Date (clk 3)\<rparr>)
           (missions sm)\<rparr>)))"
  using assms
  by (simp add: SubmitAttemptTool_execute_def getMission_def fromCurrentAttempt_def
      newAttemptCounter_def increment_def Let_def updateMission_def mutate_def
      map_has_map_set map_set_map_set newAttempt_def getRemainingAttempts_def)

lemma submit_validate_throws:
  assumes "map_of (missions sm) (sub_missionId inp) = Some m"
    and "state m = IN_PROGRESS"
    and "0 \<le> currentAttempt m"
    and "currentAttempt m < (case maxAttempts (config m) of None \<Rightarrow> 10 | Some n \<Rightarrow> n)"
    and "validate numStr (Date (clk 0)) (criteria (config m)) (sub_output inp) (sub_value inp) = Inl e"
  shows "SubmitAttemptTool_execute numStr clk inp sm = (SubmitError e, sm)"
  using assms
  by (simp add: SubmitAttemptTool_execute_def getMission_def fromCurrentAttempt_def
      newAttemptCounter_def increment_def Let_def)

lemma submit_not_in_progress:
  assumes "map_of (missions sm) (sub_missionId inp) = Some m"
    and "state m \<noteq> IN_PROGRESS"
  shows "SubmitAttemptTool_execute numStr clk inp sm = (SubmitNotInProgress (state m), sm)"
  using assms
  by (simp add: SubmitAttemptTool_execute_def getMission_def)

lemma submit_not_found:
  assumes "map_of (missions sm) (sub_missionId inp) = None"
  shows "SubmitAttemptTool_execute numStr clk inp sm = (SubmitError (MissionNotFoundError (sub_missionId inp)), sm)"
  using assms
  by (simp add: SubmitAttemptTool_execute_def getMission_def)

section \<open>Defining a mission\<close>

lemma define_ok:
  assumes "DefineMissionTool_execute uuid clk inp sm = (DefineOk mid, sm')"
  shows "\<exists>crit. mid = uuid \<and> map_of (missions sm) uuid = None
     \<and> sm' = debouncedSave (sm\<lparr>missions := map_set uuid
         \<lparr>config = \<lparr>missionId = uuid, goal = in_goal inp, criteria = crit,
                    maxAttempts = Some (case in_maxAttempts inp of None \<Rightarrow> 10 | Some n \<Rightarrow> n),
                    enableCheckpoints = Some (case in_enableCheckpoints inp of None \<Rightarrow> False | Some b \<Rightarrow> b),
                    checkpointFrequency = Some (case in_checkpointFrequency inp of None \<Rightarrow> 5 | Some n \<Rightarrow> n),
                    attemptTimeout = None\<rparr>,
          state = IN_PROGRESS, createdAt = Date (clk 0), updatedAt = Date (clk 1),
          attempts = [], currentAttempt = 0, completedAt = None, success = None,
          errorMessage = None\<rparr> (missions sm)\<rparr>)"
  using assms
  by (auto simp: DefineMissionTool_execute_def defineMission_def addMission_def map_has_def
      split: sum.splits if_splits)

lemma ex_define_eval:
  "DefineMissionTool_execute ''m1'' (ex_clock 0) ex_define (newStateManager ex_stateConfig) =
    (DefineOk ''m1'',
     (newStateManager ex_stateConfig)\<lparr>missions := [(''m1'',
        \<lparr>config = \<lparr>missionId = ''m1'', goal = ''raise the score'',
                   criteria = NumericCriteria (JSString ''>'') 100 (JSString ''score''),
                   maxAttempts = Some 1, enableCheckpoints = Some False,
                   checkpointFrequency = Some 5, attemptTimeout = None\<rparr>,
         state = IN_PROGRESS, createdAt = Date 0, updatedAt = Date 1, attempts = [],
         currentAttempt = 0, completedAt = None, success = None, errorMessage = None\<rparr>)],
       isDirty := True, saveTimer := True\<rparr>)"
  by (simp add: DefineMissionTool_execute_def ex_define_def parseCriteria_def object_def
      defineMission_def validateCriteria_def addMission_def map_has_def newStateManager_def
      debouncedSave_def ex_stateConfig_def ex_clock_def)

lemma define_ok_mission:
  assumes "DefineMissionTool_execute uuid clk inp sm = (DefineOk mid, sm')"
  shows "\<exists>m. map_of (missions sm') mid = Some m \<and> missionId (config m) = mid
     \<and> state m = IN_PROGRESS \<and> attempts m = [] \<and> currentAttempt m = 0
     \<and> maxAttempts (config m) = Some (case in_maxAttempts inp of None \<Rightarrow> 10 | Some n \<Rightarrow> n)"
  using define_ok [OF assms]
  by (auto simp: missions_debouncedSave map_of_map_set)

text \<open>
  Claim C1, as the code has it. A mission is defined with \<open>maxAttempts = 1\<close> and the first
  submission for it is validated to a result \<open>vr\<close>. The submission is accepted: attempt 1
  is recorded. If the validation passed, the mission is \<open>COMPLETED\<close> and a second submission
  is rejected as not in progress, the store staying as it is. If the validation failed,
  the mission stays \<open>IN_PROGRESS\<close> with no attempt remaining, and it is the second
  submission that is rejected with the terminal failure and moves the mission to
  \<open>FAILED\<close>, recording no attempt.
\<close>

theorem C1_single_attempt_mission:
  fixes sm0 sm1 sm2 sm3 :: StateManager
    and uuid :: string and clk0 clk1 clk2 :: "nat \<Rightarrow> int" and dinp :: DefineMissionInput
    and numStr :: "real \<Rightarrow> string" and inp1 inp2 :: SubmitAttemptInput
  defines "sm1 \<equiv> snd (DefineMissionTool_execute uuid clk0 dinp sm0)"
    and "sm2 \<equiv> snd (SubmitAttemptTool_execute numStr clk1 inp1 sm1)"
    and "sm3 \<equiv> snd (SubmitAttemptTool_execute numStr clk2 inp2 sm2)"
  assumes defined: "fst (DefineMissionTool_execute uuid clk0 dinp sm0) = DefineOk mid"
    and one: "in_maxAttempts dinp = Some 1"
    and ids: "sub_missionId inp1 = mid" "sub_missionId inp2 = mid"
    and stored: "map_of (missions sm1) mid = Some m1"
    and validated: "validate numStr (Date (clk1 0)) (criteria (config m1)) (sub_output inp1) (sub_value inp1) = Inr vr"
  shows "(passed vr \<longrightarrow>
            fst (SubmitAttemptTool_execute numStr clk1 inp1 sm1) = SubmitCompleted 1 vr
          \<and> (\<exists>m2. map_of (missions sm2) mid = Some m2 \<and> state m2 = COMPLETED
                  \<and> map attemptNumber (attempts m2) = [1] \<and> currentAttempt m2 = 1)
          \<and> SubmitAttemptTool_execute numStr clk2 inp2 sm2 = (SubmitNotInProgress COMPLETED, sm2))
       \<and> (\<not> passed vr \<longrightarrow>
            fst (SubmitAttemptTool_execute numStr clk1 inp1 sm1) = SubmitRetry 0 vr
          \<and> (\<exists>m2. map_of (missions sm2) mid = Some m2 \<and> state m2 = IN_PROGRESS
                  \<and> map attemptNumber (attempts m2) = [1] \<and> currentAttempt m2 = 1)
          \<and> fst (SubmitAttemptTool_execute numStr clk2 inp2 sm2) = SubmitMaxAttempts 1 (Some 1)
          \<and> (\<exists>m3. map_of (missions sm3) mid = Some m3 \<and> state m3 = FAILED
                  \<and> map attemptNumber (attempts m3) = [1] \<and> currentAttempt m3 = 1))"
proof -
  have d: "DefineMissionTool_execute uuid clk0 dinp sm0 = (DefineOk mid, sm1)"
    using defined by (simp add: sm1_def prod_eq_iff)
  from define_ok_mission [OF d] stored one
  have m1: "missionId (config m1) = mid" "state m1 = IN_PROGRESS" "attempts m1 = []"
    "currentAttempt m1 = 0" "maxAttempts (config m1) = Some 1"
    by auto
  have s1: "map_of (missions sm1) (sub_missionId inp1) = Some m1"
    using stored ids by simp
  have first: "SubmitAttemptTool_execute numStr clk1 inp1 sm1 =
     (if passed vr then
        (SubmitCompleted 1 vr,
         debouncedSave (sm1\<lparr>missions := map_set mid
           (m1\<lparr>attempts := [newAttempt clk1 inp1 1 vr], currentAttempt := 1,
               state := COMPLETED, completedAt := Some (Date (clk1 3)), success := Some True,
               updatedAt := Date (clk1 4)\<rparr>) (missions sm1)\<rparr>))
      else
        (SubmitRetry 0 vr,
         debouncedSave (sm1\<lparr>missions := map_set mid
           (m1\<lparr>attempts := [newAttempt clk1 inp1 1 vr], currentAttempt := 1,
               updatedAt := Date (clk1 3)\<rparr>) (missions sm1)\<rparr>)))"
    using submit_accepted [of sm1 inp1 m1 numStr clk1 vr] s1 m1 ids validated by simp
  show ?thesis
  proof (cases "passed vr")
    case True
    let ?m2 = "m1\<lparr>attempts := [newAttempt clk1 inp1 1 vr], currentAttempt := 1,
               state := COMPLETED, completedAt := Some (Date (clk1 3)), success := Some True,
               updatedAt := Date (clk1 4)\<rparr>"
    have m2: "map_of (missions sm2) (sub_missionId inp2) = Some ?m2"
      using True first ids by (simp add: sm2_def missions_debouncedSave map_of_map_set)
    have second: "SubmitAttemptTool_execute numStr clk2 inp2 sm2 = (SubmitNotInProgress COMPLETED, sm2)"
      using submit_not_in_progress [OF m2, of numStr clk2] by simp
    show ?thesis
      using True first m2 second ids m1 by (simp add: newAttempt_def)
  next
    case False
    let ?m2 = "m1\<lparr>attempts := [newAttempt clk1 inp1 1 vr], currentAttempt := 1,
               updatedAt := Date (clk1 3)\<rparr>"
    have m2: "map_of (missions sm2) (sub_missionId inp2) = Some ?m2"
      using False first ids by (simp add: sm2_def missions_debouncedSave map_of_map_set)
    have second: "SubmitAttemptTool_execute numStr clk2 inp2 sm2 =
       (SubmitMaxAttempts 1 (Some 1),
        debouncedSave (sm2\<lparr>missions := map_set (sub_missionId inp2)
          (?m2\<lparr>state := FAILED, completedAt := Some (Date (clk2 0)), success := Some False,
             errorMessage := Some ''Maximum attempts exceeded'', updatedAt := Date (clk2 1)\<rparr>)
          (missions sm2)\<rparr>))"
      using submit_exhausted [OF m2, of numStr clk2] m1 ids by simp
    show ?thesis
      using False first m2 second ids m1
      by (simp add: newAttempt_def sm3_def missions_debouncedSave map_of_map_set)
  qed
qed


theorem C1_witness:
  "fst (SubmitAttemptTool_execute (\<lambda>r. []) (ex_clock 10) ex_submit_low ex_defined) =
     SubmitRetry 0 \<lparr>passed = False, actualValue = JSNumber 50, expectedValue = JSNumber 100,
                    message = ''Validation failed:  <= '', timestamp = Date 10\<rparr>
   \<and> fst (SubmitAttemptTool_execute (\<lambda>r. []) (ex_clock 20) ex_submit
          (snd (SubmitAttemptTool_execute (\<lambda>r. []) (ex_clock 10) ex_submit_low ex_defined))) =
     SubmitMaxAttempts 1 (Some 1)"
proof -
  let ?vr = "\<lparr>passed = False, actualValue = JSNumber 50, expectedValue = JSNumber 100,
                    message = ''Validation failed:  <= '', timestamp = Date 10\<rparr>"
  let ?m1 = "\<lparr>config = \<lparr>missionId = ''m1'', goal = ''raise the score'',
                   criteria = NumericCriteria (JSString ''>'') 100 (JSString ''score''),
                   maxAttempts = Some 1, enableCheckpoints = Some False,
                   checkpointFrequency = Some 5, attemptTimeout = None\<rparr>,
         state = IN_PROGRESS, createdAt = Date 0, updatedAt = Date 1, attempts = [],
         currentAttempt = 0, completedAt = None, success = None, errorMessage = None\<rparr>"
  have h1: "fst (DefineMissionTool_execute ''m1'' (ex_clock 0) ex_define (newStateManager ex_stateConfig)) = DefineOk ''m1''"
    by (simp add: ex_define_eval)
  have h2: "in_maxAttempts ex_define = Some 1"
    by (simp add: ex_define_def)
  have h3: "sub_missionId ex_submit_low = ''m1''" "sub_missionId ex_submit = ''m1''"
    by (simp_all add: ex_submit_low_def ex_submit_def)
  have h4: "map_of (missions (snd (DefineMissionTool_execute ''m1'' (ex_clock 0) ex_define (newStateManager ex_stateConfig)))) ''m1'' = Some ?m1"
    by (simp add: ex_define_eval)
  have h5: "validate (\<lambda>r. []) (Date (ex_clock 10 0)) (criteria (config ?m1)) (sub_output ex_submit_low) (sub_value ex_submit_low) = Inr ?vr"
    by (simp add: ex_submit_low_def NumericValidator_validate_def compare_def createResult_def
        negateOperator_def ex_clock_def)
  have h6: "\<not> passed ?vr"
    by simp
  show ?thesis
    using C1_single_attempt_mission [where numStr = "\<lambda>r. []" and ?clk1.0 = "ex_clock 10"
        and ?clk2.0 = "ex_clock 20" and vr = ?vr, OF h1 h2 h3 h4 h5] h6
    by (simp add: ex_defined_def)
qed


text \<open>
  The claim as stated fails: after the only allowed attempt has failed validation the
  submission is accepted and the mission is still \<open>IN_PROGRESS\<close>, which is not a terminal
  state.
\<close>

theorem C1_counterexample:
  "fst (DefineMissionTool_execute ''m1'' (ex_clock 0) ex_define (newStateManager ex_stateConfig)) = DefineOk ''m1''
   \<and> submit_success (fst (SubmitAttemptTool_execute (\<lambda>r. []) (ex_clock 10) ex_submit_low ex_defined))
   \<and> map_option state (map_of (missions (snd (SubmitAttemptTool_execute (\<lambda>r. []) (ex_clock 10) ex_submit_low ex_defined))) ''m1'') = Some IN_PROGRESS
   \<and> \<not> isTerminal IN_PROGRESS"
  unfolding ex_defined_def ex_define_eval
  by (simp add: SubmitAttemptTool_execute_def getMission_def fromCurrentAttempt_def
      newAttemptCounter_def increment_def Let_def updateMission_def mutate_def
      map_has_def getRemainingAttempts_def ex_submit_low_def newStateManager_def
      NumericValidator_validate_def compare_def createResult_def debouncedSave_def
      ex_stateConfig_def isTerminal_def)

section \<open>Aborting a mission\<close>

lemma abort_completed_or_failed:
  assumes "map_of (missions sm) (ab_missionId inp) = Some m"
    and "state m = COMPLETED \<or> state m = FAILED"
  shows "AbortMissionTool_execute clk inp sm = (AbortRejected (state m), sm)"
  using assms by (auto simp: AbortMissionTool_execute_def getMission_def)

lemma abort_other_states:
  assumes "map_of (missions sm) (ab_missionId inp) = Some m"
    and "missionId (config m) = ab_missionId inp"
    and "state m \<noteq> COMPLETED" and "state m \<noteq> FAILED"
  shows "AbortMissionTool_execute clk inp sm =
     (AbortOk (currentAttempt m) (abortReason (ab_reason inp)),
      debouncedSave (sm\<lparr>missions := map_set (ab_missionId inp)
        (m\<lparr>state := ABORTED, completedAt := Some (Date (clk 0)), success := Some False,
           errorMessage := Some (abortReason (ab_reason inp)), updatedAt := Date (clk 1)\<rparr>)
        (missions sm)\<rparr>))"
  using assms
  by (simp add: AbortMissionTool_execute_def getMission_def Let_def updateMission_def mutate_def
      map_has_map_set map_set_map_set)

text \<open>
  Claim C6 holds for \<open>COMPLETED\<close> and \<open>FAILED\<close> (\<open>abort_completed_or_failed\<close>) and fails for
  \<open>ABORTED\<close>, which the guard of \<^verbatim>\<open>AbortMissionTool.execute\<close> does not test: a mission
  aborted at time 500 for a first reason is aborted again at time 2000. The call succeeds
  and the stored mission has a new \<open>completedAt\<close>, a new \<open>errorMessage\<close> and a new
  \<open>updatedAt\<close>.
\<close>

theorem C6_abort_of_aborted_mission:
  "AbortMissionTool_execute (ex_clock 2000) ex_abort
      ((newStateManager ex_stateConfig)\<lparr>missions := [(''m1'', ex_aborted)]\<rparr>) =
     (AbortOk 1 ''second reason'',
      (newStateManager ex_stateConfig)
        \<lparr>missions := [(''m1'', ex_aborted\<lparr>completedAt := Some (Date 2000),
                                         errorMessage := Some ''second reason'',
                                         updatedAt := Date 2001\<rparr>)],
         isDirty := True, saveTimer := True\<rparr>)
   \<and> isTerminal (state ex_aborted)
   \<and> completedAt ex_aborted = Some (Date 500)
   \<and> errorMessage ex_aborted = Some ''first reason''"
  by (simp add: AbortMissionTool_execute_def getMission_def Let_def updateMission_def mutate_def
      map_has_def ex_abort_def ex_aborted_def ex_mission_def ex_config_def newStateManager_def
      debouncedSave_def ex_stateConfig_def ex_clock_def abortReason_def isTerminal_def)

section \<open>Criteria that are refused, criteria that are completed\<close>

lemma object_simps:
  "object [] k = JSUndefined"
  "object ((k', v) # kvs) k = (if k' = k then v else object kvs k)"
  by (simp_all add: object_def)

lemma define_rejected:
  assumes "rejectedCriteria (in_strategy inp) (in_criteria inp)"
  shows "\<exists>reason. DefineMissionTool_execute uuid clk inp sm = (DefineError (InvalidCriteriaError reason), sm)"
proof -
  consider (n) "in_strategy inp = ''NUMERIC''" | (e) "in_strategy inp = ''EXIT_CODE''"
    | (k) "in_strategy inp = ''KEYWORD''"
    using assms by (auto simp: rejectedCriteria_def)
  then show ?thesis
  proof cases
    case n
    with assms show ?thesis
      by (cases "in_criteria inp ''threshold''")
         (auto simp: rejectedCriteria_def DefineMissionTool_execute_def parseCriteria_def
           defineMission_def validateCriteria_def object_simps)
  next
    case e
    with assms show ?thesis
      by (cases "in_criteria inp ''expectedCode''")
         (auto simp: rejectedCriteria_def DefineMissionTool_execute_def parseCriteria_def
           defineMission_def validateCriteria_def object_simps)
  next
    case k
    with assms show ?thesis
      by (cases "in_criteria inp ''keyword''"; cases "in_criteria inp ''mustContain''")
         (auto simp: rejectedCriteria_def DefineMissionTool_execute_def parseCriteria_def
           defineMission_def validateCriteria_def object_simps)
  qed
qed

lemma define_defaults_exit:
  assumes "in_strategy inp = ''EXIT_CODE''" and "isNullish (in_criteria inp ''expectedCode'')"
    and "map_of (missions sm) uuid = None"
  shows "fst (DefineMissionTool_execute uuid clk inp sm) = DefineOk uuid
     \<and> map_option (\<lambda>m. criteria (config m)) (map_of (missions (snd (DefineMissionTool_execute uuid clk inp sm))) uuid)
         = Some (ExitCodeCriteria 0 (in_criteria inp ''command''))"
  using assms
  by (cases "in_criteria inp ''expectedCode''")
     (auto simp: DefineMissionTool_execute_def parseCriteria_def
           defineMission_def validateCriteria_def object_simps addMission_def map_has_def
           missions_debouncedSave map_of_map_set)

lemma define_defaults_keyword:
  assumes "in_strategy inp = ''KEYWORD''" and "isNullish (in_criteria inp ''mustContain'')"
    and "in_criteria inp ''keyword'' = JSString kw" and "kw \<noteq> []"
    and "map_of (missions sm) uuid = None"
  shows "fst (DefineMissionTool_execute uuid clk inp sm) = DefineOk uuid
     \<and> map_option (\<lambda>m. criteria (config m)) (map_of (missions (snd (DefineMissionTool_execute uuid clk inp sm))) uuid)
         = Some (KeywordCriteria kw True (nullish (in_criteria inp ''caseSensitive'') (JSBoolean True)))"
  using assms
  by (cases "in_criteria inp ''mustContain''")
     (auto simp: DefineMissionTool_execute_def parseCriteria_def
           defineMission_def validateCriteria_def object_simps addMission_def map_has_def
           missions_debouncedSave map_of_map_set)

text \<open>
  Claim C7, as the code has it. A request whose criteria are refused (a threshold missing
  or not a number, an operator missing or falsy, an expected code or a \<open>mustContain\<close> given
  with the wrong type, a keyword missing, not a string or empty) fails with
  \<open>InvalidCriteriaError\<close> and the store is the one before the call. A request that gives
  no expected code, or no \<open>mustContain\<close>, is not refused: \<^verbatim>\<open>parseCriteria\<close> fills in \<open>0\<close> and
  \<open>true\<close>, and the mission is created.
\<close>

theorem C7_malformed_criteria:
  "(rejectedCriteria (in_strategy inp) (in_criteria inp) \<longrightarrow>
      (\<exists>reason. DefineMissionTool_execute uuid clk inp sm =
         (DefineError (InvalidCriteriaError reason), sm)))
   \<and> (in_strategy inp = ''EXIT_CODE'' \<and> isNullish (in_criteria inp ''expectedCode'')
        \<and> map_of (missions sm) uuid = None \<longrightarrow>
      fst (DefineMissionTool_execute uuid clk inp sm) = DefineOk uuid
      \<and> map_option (\<lambda>m. criteria (config m))
           (map_of (missions (snd (DefineMissionTool_execute uuid clk inp sm))) uuid) =
          Some (ExitCodeCriteria 0 (in_criteria inp ''command'')))
   \<and> (in_strategy inp = ''KEYWORD'' \<and> isNullish (in_criteria inp ''mustContain'')
        \<and> in_criteria inp ''keyword'' = JSString kw \<and> kw \<noteq> []
        \<and> map_of (missions sm) uuid = None \<longrightarrow>
      fst (DefineMissionTool_execute uuid clk inp sm) = DefineOk uuid
      \<and> map_option (\<lambda>m. criteria (config m))
           (map_of (missions (snd (DefineMissionTool_execute uuid clk inp sm))) uuid) =
          Some (KeywordCriteria kw True (nullish (in_criteria inp ''caseSensitive'') (JSBoolean True))))"
  using define_rejected [of inp uuid clk sm] define_defaults_exit [of inp sm uuid clk]
    define_defaults_keyword [of inp kw sm uuid clk]
  by blast

theorem C7_witness:
  "rejectedCriteria (in_strategy ex_define_bad) (in_criteria ex_define_bad)
   \<and> (\<exists>reason. DefineMissionTool_execute ''m3'' (ex_clock 0) ex_define_bad ex_store =
         (DefineError (InvalidCriteriaError reason), ex_store))
   \<and> fst (DefineMissionTool_execute ''m2'' (ex_clock 0) ex_define_exit ex_store) = DefineOk ''m2''"
proof -
  have h1: "rejectedCriteria (in_strategy ex_define_bad) (in_criteria ex_define_bad)"
    by (simp add: rejectedCriteria_def ex_define_bad_def object_simps)
  have h2: "in_strategy ex_define_exit = ''EXIT_CODE''
      \<and> isNullish (in_criteria ex_define_exit ''expectedCode'')
      \<and> map_of (missions ex_store) ''m2'' = None"
    by (simp add: ex_define_exit_def object_simps ex_store_def)
  show ?thesis
    using h1 h2
      C7_malformed_criteria [of ex_define_bad "''m3''" "ex_clock 0" ex_store "''k''"]
      C7_malformed_criteria [of ex_define_exit "''m2''" "ex_clock 0" ex_store "''k''"]
    by blast
qed

text \<open>
  The claim as stated fails for a missing expected code: the request with an empty
  criteria object creates the mission, with the expected code 0.
\<close>

theorem C7_counterexample:
  "DefineMissionTool_execute ''m2'' (ex_clock 0) ex_define_exit (newStateManager ex_stateConfig) =
    (DefineOk ''m2'',
     (newStateManager ex_stateConfig)\<lparr>missions := [(''m2'',
        \<lparr>config = \<lparr>missionId = ''m2'', goal = ''tests pass'',
                   criteria = ExitCodeCriteria 0 JSUndefined,
                   maxAttempts = Some 10, enableCheckpoints = Some False,
                   checkpointFrequency = Some 5, attemptTimeout = None\<rparr>,
         state = IN_PROGRESS, createdAt = Date 0, updatedAt = Date 1, attempts = [],
         currentAttempt = 0, completedAt = None, success = None, errorMessage = None\<rparr>)],
       isDirty := True, saveTimer := True\<rparr>)
   \<and> in_criteria ex_define_exit ''expectedCode'' = JSUndefined"
  by (simp add: DefineMissionTool_execute_def ex_define_exit_def parseCriteria_def object_simps
      defineMission_def validateCriteria_def addMission_def map_has_def newStateManager_def
      debouncedSave_def ex_stateConfig_def ex_clock_def)

section \<open>The explicit value of a submission\<close>

lemma numeric_number_value:
  "NumericValidator_validate numStr now op thr out (JSNumber n) =
     (case compare numStr n op thr of
        Inl e \<Rightarrow> Inl e
      | Inr p \<Rightarrow>
          Inr (createResult now p
                 (if p then ''Validation passed: '' @ numStr n @ '' '' @ jsToString numStr op
                             @ '' '' @ numStr thr
                  else ''Validation failed: '' @ numStr n @ '' '' @ negateOperator op
                         @ '' '' @ numStr thr)
                 (JSNumber n) (JSNumber thr)))"
  by (simp add: NumericValidator_validate_def)

lemma exitcode_number_value:
  "ExitCodeValidator_validate numStr now code out (JSNumber n) =
     Inr (createResult now (n = code)
            (if n = code then ''Command succeeded with exit code '' @ numStr n
             else ''Command failed with exit code '' @ numStr n
                    @ '' (expected '' @ numStr code @ '')'')
            (JSNumber n) (JSNumber code))"
  by (simp add: ExitCodeValidator_validate_def Let_def)

lemma non_number_value:
  "\<not> isNumber v \<Longrightarrow>
     NumericValidator_validate numStr now op thr out v =
       NumericValidator_validate numStr now op thr out JSUndefined
   \<and> ExitCodeValidator_validate numStr now code out v =
       ExitCodeValidator_validate numStr now code out JSUndefined"
  by (cases v) (simp_all add: NumericValidator_validate_def ExitCodeValidator_validate_def)

lemma keyword_ignores_value:
  "KeywordValidator_validate now kw must cs out v = KeywordValidator_validate now kw must cs out v'"
  by (simp add: KeywordValidator_validate_def)

text \<open>
  Claim C8, as the code has it. For the numeric and the exit-code strategy an explicit
  value that is a number decides the result: the result does not depend on the output,
  the reported actual value is that number and the verdict is its comparison with the
  threshold, or its equality with the expected code. A value that is not a number (a
  string, for one) is not used by these two strategies: the result is the one without a
  value, parsed from the output. The keyword strategy never reads the value.
\<close>

theorem C8_value_precedence:
  "validate numStr now (NumericCriteria op thr mn) out1 (JSNumber n) =
     validate numStr now (NumericCriteria op thr mn) out2 (JSNumber n)
   \<and> (\<forall>r. validate numStr now (NumericCriteria op thr mn) out1 (JSNumber n) = Inr r \<longrightarrow>
          actualValue r = JSNumber n \<and> compare numStr n op thr = Inr (passed r))
   \<and> validate numStr now (ExitCodeCriteria code cmd) out1 (JSNumber n) =
     validate numStr now (ExitCodeCriteria code cmd) out2 (JSNumber n)
   \<and> (\<forall>r. validate numStr now (ExitCodeCriteria code cmd) out1 (JSNumber n) = Inr r \<longrightarrow>
          actualValue r = JSNumber n \<and> passed r = (n = code))
   \<and> (\<not> isNumber v \<longrightarrow>
          validate numStr now (NumericCriteria op thr mn) out1 v =
            validate numStr now (NumericCriteria op thr mn) out1 JSUndefined
        \<and> validate numStr now (ExitCodeCriteria code cmd) out1 v =
            validate numStr now (ExitCodeCriteria code cmd) out1 JSUndefined)
   \<and> validate numStr now (KeywordCriteria kw must cs) out1 v =
     validate numStr now (KeywordCriteria kw must cs) out1 v'"
  using non_number_value [of v numStr now op thr out1 code]
    keyword_ignores_value [of now kw must cs out1 v v']
  by (auto simp: numeric_number_value exitcode_number_value createResult_def split: sum.splits)

theorem C8_witness:
  "\<not> isNumber (JSString ''150'')
   \<and> validate (\<lambda>r. []) (Date 0) (NumericCriteria (JSString ''>'') 100 JSUndefined)
        ''The score is 50'' (JSString ''150'') =
     validate (\<lambda>r. []) (Date 0) (NumericCriteria (JSString ''>'') 100 JSUndefined)
        ''The score is 50'' JSUndefined
   \<and> validate (\<lambda>r. []) (Date 0) (NumericCriteria (JSString ''>'') 100 JSUndefined)
        ''The score is 50'' (JSNumber 150) =
     validate (\<lambda>r. []) (Date 0) (NumericCriteria (JSString ''>'') 100 JSUndefined)
        ''no number here'' (JSNumber 150)
   \<and> (\<exists>r. validate (\<lambda>r. []) (Date 0) (NumericCriteria (JSString ''>'') 100 JSUndefined)
        ''The score is 50'' (JSNumber 150) = Inr r \<and> actualValue r = JSNumber 150 \<and> passed r)"
proof -
  have h1: "\<not> isNumber (JSString ''150'')"
    by simp
  have h2: "validate (\<lambda>r. []) (Date 0) (NumericCriteria (JSString ''>'') 100 JSUndefined)
        ''The score is 50'' (JSNumber 150) =
      Inr \<lparr>passed = True, actualValue = JSNumber 150, expectedValue = JSNumber 100,
           message = ''Validation passed:  > '', timestamp = Date 0\<rparr>"
    by (simp add: NumericValidator_validate_def compare_def createResult_def)
  show ?thesis
    using h1 h2
      C8_value_precedence [of "\<lambda>r. []" "Date 0" "JSString ''>''" 100 JSUndefined
        "''The score is 50''" 150 "''no number here''" 0 JSUndefined "JSString ''150''"
        "''k''" True JSUndefined JSUndefined]
    by (simp add: NumericValidator_validate_def compare_def createResult_def)
qed

text \<open>
  The claim as stated fails. With the keyword strategy the same explicit value gives a
  pass on one output and a fail on another. With the numeric and the exit-code strategy a
  value given as a string is passed over: the verdict and the actual value come from the
  number parsed from the output (50 and not 150, 1 and not 0).
\<close>

theorem C8_counterexample:
  "map_sum id passed
     (validate (\<lambda>r. []) (Date 0) (KeywordCriteria ''ERROR'' True JSUndefined)
        ''ERROR: disk full'' (JSString ''all good'')) = Inr True
   \<and> map_sum id passed
     (validate (\<lambda>r. []) (Date 0) (KeywordCriteria ''ERROR'' True JSUndefined)
        ''all good'' (JSString ''all good'')) = Inr False
   \<and> map_sum id (\<lambda>r. (passed r, actualValue r))
     (validate (\<lambda>r. []) (Date 0) (NumericCriteria (JSString ''>'') 100 JSUndefined)
        ''The score is 50'' (JSString ''150'')) = Inr (False, JSNumber 50)
   \<and> map_sum id (\<lambda>r. (passed r, actualValue r))
     (validate (\<lambda>r. []) (Date 0) (ExitCodeCriteria 0 JSUndefined)
        ''exit code: 1'' (JSString ''0'')) = Inr (False, JSNumber 1)"
  by (simp add: KeywordValidator_validate_def NumericValidator_validate_def
      ExitCodeValidator_validate_def extractNumber_def extractExitCode_def
      numberBody_def isDigit_def parseFloat_def unsignedDecimal_def digitsToNat_def
      matchExitCodeAt_def separatorThenDigits_def isSeparator_def isSpace_def toLowerChar_def
      compare_def createResult_def Let_def)

section \<open>The numbering of the attempts is an invariant\<close>

lemma keys_map_set: "fst ` set (map_set k v m) = insert k (fst ` set m)"
  by (induction m) auto

lemma distinct_map_set: "distinct (map fst m) \<Longrightarrow> distinct (map fst (map_set k v m))"
  by (induction m) (auto simp: keys_map_set)

lemma storeConsistent_iff:
  "storeConsistent sm =
     (distinct (map fst (missions sm))
      \<and> (\<forall>k m. map_of (missions sm) k = Some m \<longrightarrow> missionId (config m) = k \<and> attemptsConsistent m))"
  by (auto simp: storeConsistent_def list_all_iff)

lemma storeConsistent_update:
  assumes "storeConsistent sm" and "missionId (config m') = k" and "attemptsConsistent m'"
  shows "storeConsistent (debouncedSave (sm\<lparr>missions := map_set k m' (missions sm)\<rparr>))"
  using assms
  by (auto simp: storeConsistent_iff missions_debouncedSave distinct_map_set map_of_map_set
      split: if_splits)

lemma submit_counter_overshoot:
  assumes "map_of (missions sm) (sub_missionId inp) = Some m"
    and "state m = IN_PROGRESS"
    and "currentAttempt m < 0 \<or> (case maxAttempts (config m) of None \<Rightarrow> 10 | Some n \<Rightarrow> n) < currentAttempt m"
  shows "\<exists>e. SubmitAttemptTool_execute numStr clk inp sm = (SubmitError e, sm)"
  using assms
  by (auto simp: SubmitAttemptTool_execute_def getMission_def fromCurrentAttempt_def)

text \<open>What a submission does to a consistent store.\<close>

lemma submit_cases:
  assumes "storeConsistent sm"
  shows "(snd (SubmitAttemptTool_execute numStr clk inp sm) = sm
          \<and> \<not> submit_success (fst (SubmitAttemptTool_execute numStr clk inp sm)))
       \<or> (\<exists>m m'. map_of (missions sm) (sub_missionId inp) = Some m
            \<and> snd (SubmitAttemptTool_execute numStr clk inp sm) =
                debouncedSave (sm\<lparr>missions := map_set (sub_missionId inp) m' (missions sm)\<rparr>)
            \<and> config m' = config m
            \<and> (\<not> submit_success (fst (SubmitAttemptTool_execute numStr clk inp sm))
                 \<and> attempts m' = attempts m \<and> currentAttempt m' = currentAttempt m
               \<or> submit_success (fst (SubmitAttemptTool_execute numStr clk inp sm))
                 \<and> (\<exists>a. attempts m' = attempts m @ [a] \<and> attemptNumber a = currentAttempt m + 1)
                 \<and> currentAttempt m' = currentAttempt m + 1))"
proof (cases "map_of (missions sm) (sub_missionId inp)")
  case None
  then show ?thesis by (simp add: submit_not_found)
next
  case (Some m)
  from assms Some have idm: "missionId (config m) = sub_missionId inp"
    and cons: "attemptsConsistent m"
    by (auto simp: storeConsistent_iff)
  from cons have nonneg: "0 \<le> currentAttempt m"
    by (simp add: attemptsConsistent_def)
  let ?max = "case maxAttempts (config m) of None \<Rightarrow> 10 | Some n \<Rightarrow> n"
  show ?thesis
  proof (cases "state m = IN_PROGRESS")
    case False
    then show ?thesis using Some by (simp add: submit_not_in_progress)
  next
    case True
    consider (over) "?max < currentAttempt m" | (at) "currentAttempt m = ?max"
      | (below) "currentAttempt m < ?max"
      by linarith
    then show ?thesis
    proof cases
      case over
      then obtain e where "SubmitAttemptTool_execute numStr clk inp sm = (SubmitError e, sm)"
        using submit_counter_overshoot [OF Some True, of numStr clk] by blast
      then show ?thesis by simp
    next
      case at
      show ?thesis
        using Some
        by (intro disjI2 exI [of _ m]
              exI [of _ "m\<lparr>state := FAILED, completedAt := Some (Date (clk 0)),
                 success := Some False, errorMessage := Some ''Maximum attempts exceeded'',
                 updatedAt := Date (clk 1)\<rparr>"])
           (simp add: submit_exhausted [OF Some idm True nonneg at])
    next
      case below
      show ?thesis
      proof (cases "validate numStr (Date (clk 0)) (criteria (config m)) (sub_output inp) (sub_value inp)")
        case (Inl e)
        then show ?thesis
          by (simp add: submit_validate_throws [where clk = clk, OF Some True nonneg below Inl])
      next
        case (Inr vr)
        show ?thesis
        proof (cases "passed vr")
          case True
          show ?thesis
            using Some True
            by (intro disjI2 exI [of _ m]
                  exI [of _ "m\<lparr>attempts := attempts m @ [newAttempt clk inp (currentAttempt m + 1) vr],
                     currentAttempt := currentAttempt m + 1,
                     state := COMPLETED, completedAt := Some (Date (clk 3)), success := Some True,
                     updatedAt := Date (clk 4)\<rparr>"])
               (simp add: submit_accepted [where clk = clk, OF Some idm \<open>state m = IN_PROGRESS\<close> nonneg below Inr]
                  newAttempt_def)
        next
          case False
          show ?thesis
            using Some False
            by (intro disjI2 exI [of _ m]
                  exI [of _ "m\<lparr>attempts := attempts m @ [newAttempt clk inp (currentAttempt m + 1) vr],
                     currentAttempt := currentAttempt m + 1,
                     updatedAt := Date (clk 3)\<rparr>"])
               (simp add: submit_accepted [where clk = clk, OF Some idm \<open>state m = IN_PROGRESS\<close> nonneg below Inr]
                  newAttempt_def)
        qed
      qed
    qed
  qed
qed

lemma abort_cases:
  assumes "storeConsistent sm"
  shows "snd (AbortMissionTool_execute clk inp sm) = sm
       \<or> (\<exists>m m'. map_of (missions sm) (ab_missionId inp) = Some m
            \<and> snd (AbortMissionTool_execute clk inp sm) =
                debouncedSave (sm\<lparr>missions := map_set (ab_missionId inp) m' (missions sm)\<rparr>)
            \<and> config m' = config m
            \<and> attempts m' = attempts m \<and> currentAttempt m' = currentAttempt m)"
proof (cases "map_of (missions sm) (ab_missionId inp)")
  case None
  then show ?thesis by (simp add: AbortMissionTool_execute_def getMission_def)
next
  case (Some m)
  from assms Some have idm: "missionId (config m) = ab_missionId inp"
    by (auto simp: storeConsistent_iff)
  show ?thesis
  proof (cases "state m = COMPLETED \<or> state m = FAILED")
    case True
    then show ?thesis using abort_completed_or_failed [OF Some True] by simp
  next
    case False
    then show ?thesis
      using Some
      by (intro disjI2 exI [of _ m]
            exI [of _ "m\<lparr>state := ABORTED, completedAt := Some (Date (clk 0)),
               success := Some False, errorMessage := Some (abortReason (ab_reason inp)),
               updatedAt := Date (clk 1)\<rparr>"])
         (simp add: abort_other_states [OF Some idm, of clk])
  qed
qed

lemma define_cases:
  "snd (DefineMissionTool_execute uuid clk inp sm) = sm
   \<or> (\<exists>m'. map_of (missions sm) uuid = None
         \<and> snd (DefineMissionTool_execute uuid clk inp sm) =
             debouncedSave (sm\<lparr>missions := map_set uuid m' (missions sm)\<rparr>)
         \<and> missionId (config m') = uuid
         \<and> attempts m' = [] \<and> currentAttempt m' = 0)"
proof (cases "DefineMissionTool_execute uuid clk inp sm")
  case (Pair r sm')
  show ?thesis
  proof (cases r)
    case (DefineOk mid)
    from define_ok [OF Pair [unfolded DefineOk]] show ?thesis
      using Pair by auto
  next
    case (DefineError e)
    then have "sm' = sm"
      using Pair
      by (auto simp: DefineMissionTool_execute_def split: sum.splits)
    then show ?thesis using Pair by simp
  qed
qed


lemma attemptsConsistent_frame:
  "attemptsConsistent m \<Longrightarrow> attempts m' = attempts m \<Longrightarrow> currentAttempt m' = currentAttempt m
   \<Longrightarrow> attemptsConsistent m'"
  by (simp add: attemptsConsistent_def)

lemma attemptsConsistent_append:
  "attemptsConsistent m \<Longrightarrow> attempts m' = attempts m @ [a]
   \<Longrightarrow> attemptNumber a = currentAttempt m + 1 \<Longrightarrow> currentAttempt m' = currentAttempt m + 1
   \<Longrightarrow> attemptsConsistent m'"
  by (simp add: attemptsConsistent_def)

lemma attemptsConsistent_new:
  "attempts m = [] \<Longrightarrow> currentAttempt m = 0 \<Longrightarrow> attemptsConsistent m"
  by (simp add: attemptsConsistent_def)

lemma stored_consistent:
  "storeConsistent sm \<Longrightarrow> map_of (missions sm) k = Some m
   \<Longrightarrow> missionId (config m) = k \<and> attemptsConsistent m"
  by (simp add: storeConsistent_iff)

lemma recorded_update:
  "recorded (debouncedSave (sm\<lparr>missions := map_set k m' (missions sm)\<rparr>)) k' =
     (if k' = k then length (attempts m') else recorded sm k')"
  by (simp add: recorded_def missions_debouncedSave map_of_map_set)

lemma step_submit:
  assumes "storeConsistent sm"
  shows "storeConsistent (step numStr (OpSubmit clk inp) sm)
     \<and> recorded (step numStr (OpSubmit clk inp) sm) k =
         recorded sm k + (if acceptedSubmit numStr k (OpSubmit clk inp) sm then 1 else 0)"
  using submit_cases [OF assms, of numStr clk inp]
proof (elim disjE exE conjE)
  assume "snd (SubmitAttemptTool_execute numStr clk inp sm) = sm"
    and "\<not> submit_success (fst (SubmitAttemptTool_execute numStr clk inp sm))"
  then show ?thesis using assms by simp
next
  fix m m'
  assume m: "map_of (missions sm) (sub_missionId inp) = Some m"
    and s: "snd (SubmitAttemptTool_execute numStr clk inp sm) =
        debouncedSave (sm\<lparr>missions := map_set (sub_missionId inp) m' (missions sm)\<rparr>)"
    and c: "config m' = config m"
    and r: "\<not> submit_success (fst (SubmitAttemptTool_execute numStr clk inp sm))"
    and f: "attempts m' = attempts m" "currentAttempt m' = currentAttempt m"
  from stored_consistent [OF assms m] have "missionId (config m') = sub_missionId inp"
    and "attemptsConsistent m'"
    using c f by (auto intro: attemptsConsistent_frame)
  then show ?thesis
    using storeConsistent_update [OF assms, of m' "sub_missionId inp"] s r f m
    by (simp add: recorded_update) (simp add: recorded_def)
next
  fix m m' a
  assume m: "map_of (missions sm) (sub_missionId inp) = Some m"
    and s: "snd (SubmitAttemptTool_execute numStr clk inp sm) =
        debouncedSave (sm\<lparr>missions := map_set (sub_missionId inp) m' (missions sm)\<rparr>)"
    and c: "config m' = config m"
    and r: "submit_success (fst (SubmitAttemptTool_execute numStr clk inp sm))"
    and f: "attempts m' = attempts m @ [a]" "attemptNumber a = currentAttempt m + 1"
      "currentAttempt m' = currentAttempt m + 1"
  from stored_consistent [OF assms m] have "missionId (config m') = sub_missionId inp"
    and "attemptsConsistent m'"
    using c f by (auto intro: attemptsConsistent_append)
  then show ?thesis
    using storeConsistent_update [OF assms, of m' "sub_missionId inp"] s r f m
    by (simp add: recorded_update) (simp add: recorded_def)
qed

lemma step_abort:
  assumes "storeConsistent sm"
  shows "storeConsistent (step numStr (OpAbort clk inp) sm)
     \<and> recorded (step numStr (OpAbort clk inp) sm) k = recorded sm k"
  using abort_cases [OF assms, of clk inp]
proof (elim disjE exE conjE)
  assume "snd (AbortMissionTool_execute clk inp sm) = sm"
  then show ?thesis using assms by simp
next
  fix m m'
  assume m: "map_of (missions sm) (ab_missionId inp) = Some m"
    and s: "snd (AbortMissionTool_execute clk inp sm) =
        debouncedSave (sm\<lparr>missions := map_set (ab_missionId inp) m' (missions sm)\<rparr>)"
    and c: "config m' = config m"
    and f: "attempts m' = attempts m" "currentAttempt m' = currentAttempt m"
  from stored_consistent [OF assms m] have "missionId (config m') = ab_missionId inp"
    and "attemptsConsistent m'"
    using c f by (auto intro: attemptsConsistent_frame)
  then show ?thesis
    using storeConsistent_update [OF assms, of m' "ab_missionId inp"] s f m
    by (simp add: recorded_update) (simp add: recorded_def)
qed

lemma step_define:
  assumes "storeConsistent sm"
  shows "storeConsistent (step numStr (OpDefine uuid clk inp) sm)
     \<and> recorded (step numStr (OpDefine uuid clk inp) sm) k = recorded sm k"
  using define_cases [of uuid clk inp sm]
proof (elim disjE exE conjE)
  assume "snd (DefineMissionTool_execute uuid clk inp sm) = sm"
  then show ?thesis using assms by simp
next
  fix m'
  assume m: "map_of (missions sm) uuid = None"
    and s: "snd (DefineMissionTool_execute uuid clk inp sm) =
        debouncedSave (sm\<lparr>missions := map_set uuid m' (missions sm)\<rparr>)"
    and c: "missionId (config m') = uuid"
    and f: "attempts m' = []" "currentAttempt m' = 0"
  show ?thesis
    using storeConsistent_update [OF assms c attemptsConsistent_new [OF f]] s f m
    by (simp add: recorded_update) (simp add: recorded_def)
qed

lemma step_consistent:
  assumes "storeConsistent sm"
  shows "storeConsistent (step numStr op sm)
     \<and> recorded (step numStr op sm) k =
         recorded sm k + (if acceptedSubmit numStr k op sm then 1 else 0)"
proof (cases op)
  case (OpDefine uuid clk inp)
  then show ?thesis using step_define [OF assms, of numStr uuid clk inp k] by simp
next
  case (OpSubmit clk inp)
  then show ?thesis using step_submit [OF assms, of numStr clk inp k] by simp
next
  case (OpAbort clk inp)
  then show ?thesis using step_abort [OF assms, of numStr clk inp k] by simp
qed

lemma run_consistent:
  "storeConsistent sm \<Longrightarrow>
     storeConsistent (run numStr ops sm)
     \<and> recorded (run numStr ops sm) k = recorded sm k + acceptedSubmits numStr k ops sm"
proof (induction ops arbitrary: sm)
  case Nil
  then show ?case by simp
next
  case (Cons op ops)
  from step_consistent [OF Cons.prems, of numStr op k]
  have 1: "storeConsistent (step numStr op sm)"
    and 2: "recorded (step numStr op sm) k =
         recorded sm k + (if acceptedSubmit numStr k op sm then 1 else 0)"
    by simp_all
  from Cons.IH [OF 1] 2 show ?case by simp
qed

lemma new_store_consistent: "storeConsistent (newStateManager cfg)"
  by (simp add: storeConsistent_def newStateManager_def)

lemma ex_run_eval:
  "map (\<lambda>(k, m). (k, state m, currentAttempt m, map attemptNumber (attempts m)))
     (missions (run (\<lambda>r. []) ex_ops (newStateManager ex_stateConfig))) =
   [(''m1'', COMPLETED, 2, [1, 2])]"
  by (simp add: ex_ops_def ex_define3_def ex_define_def ex_submit_low_def ex_submit_def
      DefineMissionTool_execute_def parseCriteria_def object_def
      defineMission_def validateCriteria_def addMission_def map_has_def newStateManager_def
      debouncedSave_def ex_stateConfig_def ex_clock_def
      SubmitAttemptTool_execute_def getMission_def fromCurrentAttempt_def
      newAttemptCounter_def increment_def Let_def updateMission_def mutate_def
      getRemainingAttempts_def NumericValidator_validate_def compare_def createResult_def)

lemma ex_accepted_eval:
  "acceptedSubmits (\<lambda>r. []) ''m1'' ex_ops (newStateManager ex_stateConfig) = 2"
  by (simp add: ex_ops_def ex_define3_def ex_define_def ex_submit_low_def ex_submit_def
      DefineMissionTool_execute_def parseCriteria_def object_def
      defineMission_def validateCriteria_def addMission_def map_has_def newStateManager_def
      debouncedSave_def ex_stateConfig_def ex_clock_def
      SubmitAttemptTool_execute_def getMission_def fromCurrentAttempt_def
      newAttemptCounter_def increment_def Let_def updateMission_def mutate_def
      getRemainingAttempts_def NumericValidator_validate_def compare_def createResult_def)

text \<open>
  Claim C3. After any sequence of define, submit and abort calls on a new store, every
  mission of the store has \<open>currentAttempt\<close> equal to the length of \<open>attempts\<close> and its
  attempts carry the numbers 1, 2, ..., N in this order; N is the number of accepted
  submissions for the mission in the sequence, so \<open>k\<close> accepted submissions give the
  attempt numbers 1..k with no gap and no repeat.
\<close>

theorem C3_attempt_numbering:
  "\<forall>(k, m) \<in> set (missions (run numStr ops (newStateManager cfg))).
      currentAttempt m = int (length (attempts m))
    \<and> map attemptNumber (attempts m) = map int [1..<Suc (length (attempts m))]
    \<and> length (attempts m) = acceptedSubmits numStr k ops (newStateManager cfg)"
proof (clarify)
  fix k m
  assume km: "(k, m) \<in> set (missions (run numStr ops (newStateManager cfg)))"
  from run_consistent [OF new_store_consistent, of numStr ops cfg k]
  have c: "storeConsistent (run numStr ops (newStateManager cfg))"
    and r: "recorded (run numStr ops (newStateManager cfg)) k =
        acceptedSubmits numStr k ops (newStateManager cfg)"
    by (simp_all add: recorded_def newStateManager_def)
  from c km have mk: "map_of (missions (run numStr ops (newStateManager cfg))) k = Some m"
    by (simp add: storeConsistent_def)
  from stored_consistent [OF c mk] r mk
  show "currentAttempt m = int (length (attempts m))
    \<and> map attemptNumber (attempts m) = map int [1..<Suc (length (attempts m))]
    \<and> length (attempts m) = acceptedSubmits numStr k ops (newStateManager cfg)"
    by (simp add: attemptsConsistent_def recorded_def)
qed


theorem C3_witness:
  "map (\<lambda>(k, m). (k, state m, currentAttempt m, map attemptNumber (attempts m)))
     (missions (run (\<lambda>r. []) ex_ops (newStateManager ex_stateConfig))) =
   [(''m1'', COMPLETED, 2, [1, 2])]
   \<and> list_all (\<lambda>(k, m). length (attempts m) =
         acceptedSubmits (\<lambda>r. []) k ex_ops (newStateManager ex_stateConfig))
       (missions (run (\<lambda>r. []) ex_ops (newStateManager ex_stateConfig)))
   \<and> acceptedSubmits (\<lambda>r. []) ''m1'' ex_ops (newStateManager ex_stateConfig) = 2"
  using C3_attempt_numbering [of "\<lambda>r. []" ex_ops ex_stateConfig] ex_run_eval ex_accepted_eval
  by (auto simp: list_all_iff)

section \<open>A snapshot restores the store\<close>

lemma bindE_Inr [simp]: "bindE (Inr v) f = f v"
  by (simp add: bindE_def)

lemma bindE_Inl [simp]: "bindE (Inl e) f = Inl e"
  by (simp add: bindE_def)

lemma mapE_inverse:
  "(\<And>x. x \<in> set xs \<Longrightarrow> \<exists>y. f x = Inr y \<and> g y = x)
   \<Longrightarrow> \<exists>ys. mapE f xs = Inr ys \<and> map g ys = xs"
proof (induction xs)
  case Nil
  then show ?case by simp
next
  case (Cons x xs)
  from Cons.prems [of x] obtain y where y: "f x = Inr y" "g y = x"
    by auto
  from Cons.IH Cons.prems obtain ys where ys: "mapE f xs = Inr ys" "map g ys = xs"
    by auto
  show ?case
    by (simp add: y ys)
qed

lemma restorable_iff:
  "restorable toISO parseDate d = (\<exists>t. d = Date t \<and> toISO t \<noteq> [] \<and> parseDate (toISO t) = Date t)"
  by (cases d) simp_all

lemma map_set_fresh: "k \<notin> fst ` set m \<Longrightarrow> map_set k v m = m @ [(k, v)]"
  by (induction m) auto

lemma rebuild_map:
  "distinct (map fst acc @ map fst xs) \<Longrightarrow>
   foldl (\<lambda>acc (k, s). map_set k (f s) acc) acc xs = acc @ map (\<lambda>(k, s). (k, f s)) xs"
proof (induction xs arbitrary: acc)
  case Nil
  then show ?case by simp
next
  case (Cons x xs)
  obtain k s where x: "x = (k, s)" by (cases x)
  from Cons.prems have fresh: "k \<notin> fst ` set acc"
    by (auto simp: x)
  from Cons.prems have d: "distinct (map fst (acc @ [(k, f s)]) @ map fst xs)"
    by (auto simp: x)
  show ?case
    using Cons.IH [OF d] by (simp add: x map_set_fresh [OF fresh])
qed

lemma serializeAttempt_restorable:
  assumes "restorableAttempt toISO parseDate a"
  shows "\<exists>s. serializeAttempt toISO a = Inr s \<and> deserializeAttempt parseDate s = a"
  using assms
  by (auto simp: restorableAttempt_def restorable_iff serializeAttempt_def toISOString_def
      deserializeAttempt_def)

lemma serializeMission_restorable:
  assumes "restorableMission toISO parseDate m"
  shows "\<exists>s. serializeMission toISO m = Inr s \<and> deserializeMission parseDate s = m"
proof -
  from assms obtain c u where cu: "createdAt m = Date c" "updatedAt m = Date u"
    "parseDate (toISO c) = Date c" "parseDate (toISO u) = Date u"
    by (auto simp: restorableMission_def restorable_iff)
  from assms have "\<And>a. a \<in> set (attempts m) \<Longrightarrow>
      \<exists>s. serializeAttempt toISO a = Inr s \<and> deserializeAttempt parseDate s = a"
    using serializeAttempt_restorable by (auto simp: restorableMission_def list_all_iff)
  from mapE_inverse [of "attempts m" "serializeAttempt toISO" "deserializeAttempt parseDate", OF this]
  obtain as where as: "mapE (serializeAttempt toISO) (attempts m) = Inr as"
    "map (deserializeAttempt parseDate) as = attempts m"
    by auto
  show ?thesis
  proof (cases "completedAt m")
    case None
    then show ?thesis
      using cu as
      by (simp add: serializeMission_def toISOString_def deserializeMission_def)
  next
    case (Some d)
    with assms obtain t where "d = Date t" "toISO t \<noteq> []" "parseDate (toISO t) = Date t"
      by (auto simp: restorableMission_def restorable_iff)
    then show ?thesis
      using Some cu as
      by (simp add: serializeMission_def toISOString_def deserializeMission_def)
  qed
qed

lemma serializeCheckpoint_restorable:
  assumes "restorableCheckpoint toISO parseDate c"
  shows "\<exists>s. serializeCheckpoint toISO c = Inr s \<and> deserializeCheckpoint parseDate s = c"
proof -
  from assms obtain t where t: "checkpointTimestamp c = Date t" "parseDate (toISO t) = Date t"
    by (auto simp: restorableCheckpoint_def restorable_iff)
  from assms serializeMission_restorable [of toISO parseDate "missionSnapshot c"]
  obtain s where "serializeMission toISO (missionSnapshot c) = Inr s"
    "deserializeMission parseDate s = missionSnapshot c"
    by (auto simp: restorableCheckpoint_def)
  then show ?thesis
    using t
    by (simp add: serializeCheckpoint_def toISOString_def deserializeCheckpoint_def)
qed

lemma serializeState_restorable:
  assumes "restorableStore toISO parseDate sm"
  shows "\<exists>snap. serializeState toISO now sm = Inr snap
     \<and> missions (deserializeState parseDate snap sm0) = missions sm
     \<and> checkpoints (deserializeState parseDate snap sm0) = checkpoints sm"
proof -
  have "\<And>x. x \<in> set (missions sm) \<Longrightarrow>
      \<exists>y. (\<lambda>(k, m). bindE (serializeMission toISO m) (\<lambda>s. Inr (k, s))) x = Inr y
        \<and> (\<lambda>(k, s). (k, deserializeMission parseDate s)) y = x"
  proof -
    fix x assume x: "x \<in> set (missions sm)"
    obtain k m where km: "x = (k, m)" by (cases x)
    with x assms have "restorableMission toISO parseDate m"
      by (auto simp: restorableStore_def list_all_iff)
    from serializeMission_restorable [OF this] km
    show "\<exists>y. (\<lambda>(k, m). bindE (serializeMission toISO m) (\<lambda>s. Inr (k, s))) x = Inr y
        \<and> (\<lambda>(k, s). (k, deserializeMission parseDate s)) y = x"
      by auto
  qed
  from mapE_inverse [OF this]
  obtain ms where ms:
    "mapE (\<lambda>(k, m). bindE (serializeMission toISO m) (\<lambda>s. Inr (k, s))) (missions sm) = Inr ms"
    "map (\<lambda>(k, s). (k, deserializeMission parseDate s)) ms = missions sm"
    by blast
  have "\<And>x. x \<in> set (checkpoints sm) \<Longrightarrow>
      \<exists>y. (\<lambda>(k, c). bindE (serializeCheckpoint toISO c) (\<lambda>s. Inr (k, s))) x = Inr y
        \<and> (\<lambda>(k, s). (k, deserializeCheckpoint parseDate s)) y = x"
  proof -
    fix x assume x: "x \<in> set (checkpoints sm)"
    obtain k c where kc: "x = (k, c)" by (cases x)
    with x assms have "restorableCheckpoint toISO parseDate c"
      by (auto simp: restorableStore_def list_all_iff)
    from serializeCheckpoint_restorable [OF this] kc
    show "\<exists>y. (\<lambda>(k, c). bindE (serializeCheckpoint toISO c) (\<lambda>s. Inr (k, s))) x = Inr y
        \<and> (\<lambda>(k, s). (k, deserializeCheckpoint parseDate s)) y = x"
      by auto
  qed
  from mapE_inverse [OF this]
  obtain cs where cs:
    "mapE (\<lambda>(k, c). bindE (serializeCheckpoint toISO c) (\<lambda>s. Inr (k, s))) (checkpoints sm) = Inr cs"
    "map (\<lambda>(k, s). (k, deserializeCheckpoint parseDate s)) cs = checkpoints sm"
    by blast
  have keys_ms: "map fst ms = map fst (missions sm)"
    using arg_cong [OF ms(2), of "map fst"] by (simp add: case_prod_unfold comp_def)
  have keys_cs: "map fst cs = map fst (checkpoints sm)"
    using arg_cong [OF cs(2), of "map fst"] by (simp add: case_prod_unfold comp_def)
  from assms have dm: "distinct (map fst [] @ map fst ms)"
    and dc: "distinct (map fst [] @ map fst cs)"
    by (simp_all add: restorableStore_def keys_ms keys_cs)
  show ?thesis
    using ms cs rebuild_map [OF dm, where f = "deserializeMission parseDate"]
      rebuild_map [OF dc, where f = "deserializeCheckpoint parseDate"]
    by (simp add: serializeState_def deserializeState_def)
qed

text \<open>
  Claim C4, as the code has it. A store whose dates are all valid (restorable) is
  serialized to a snapshot, and deserializing the snapshot into a new manager gives the
  same missions: the same identifiers in the same order, each with a mission equal in
  every field, dates and the list of attempts included; the checkpoints are restored as
  well. Every store that the tools build from a new manager is such a store
  (\<open>tool_built_store_restorable\<close> below).
\<close>

theorem C4_snapshot_round_trip:
  assumes "restorableStore toISO parseDate sm"
  shows "\<exists>snap. serializeState toISO now sm = Inr snap
     \<and> missions (deserializeState parseDate snap (newStateManager cfg)) = missions sm
     \<and> checkpoints (deserializeState parseDate snap (newStateManager cfg)) = checkpoints sm"
  using serializeState_restorable [OF assms] by blast

lemma ex_store2_restorable: "restorableStore ex_toISO ex_parseDate ex_store2"
  by (simp add: restorableStore_def ex_store2_def newStateManager_def restorableMission_def
      restorableCheckpoint_def restorableAttempt_def ex_aborted_def ex_mission_def ex_fresh_def
      ex_attempt_def ex_checkpoint_def ex_toISO_def ex_parseDate_def ex_isoTable_def)

theorem C4_witness:
  "\<exists>snap. serializeState ex_toISO 2000 ex_store2 = Inr snap
     \<and> missions (deserializeState ex_parseDate snap (newStateManager ex_stateConfig)) =
         [(''m1'', ex_aborted), (''m0'', ex_fresh)]"
  using C4_snapshot_round_trip [OF ex_store2_restorable, of 2000 ex_stateConfig]
  by (auto simp: ex_store2_def)

section \<open>The stores that the tools build are restorable\<close>

lemma list_all_map_set:
  "list_all P m \<Longrightarrow> P (k, v) \<Longrightarrow> list_all P (map_set k v m)"
  by (induction m) auto

lemma restorableStore_update:
  assumes "restorableStore toISO parseDate sm" and "restorableMission toISO parseDate m'"
  shows "restorableStore toISO parseDate
           (debouncedSave (sm\<lparr>missions := map_set k m' (missions sm)\<rparr>))"
  using assms
  by (simp add: restorableStore_def missions_debouncedSave checkpoints_debouncedSave
      distinct_map_set list_all_map_set)

lemma stored_restorable:
  "restorableStore toISO parseDate sm \<Longrightarrow> map_of (missions sm) k = Some m
   \<Longrightarrow> restorableMission toISO parseDate m"
  by (auto simp: restorableStore_def list_all_iff dest: map_of_SomeD)

lemma validate_timestamp:
  "validate numStr now crit out v = Inr vr \<Longrightarrow> timestamp vr = now"
  by (cases crit)
     (auto simp: NumericValidator_validate_def ExitCodeValidator_validate_def
        KeywordValidator_validate_def createResult_def Let_def
        split: option.splits sum.splits JSValue.splits)

text \<open>Every date that the clock gives is restorable when the run-time system is sound.\<close>

lemma submit_restorable:
  assumes c: "storeConsistent sm" and r: "restorableStore toISO parseDate sm"
    and rt: "\<forall>t. toISO t \<noteq> [] \<and> parseDate (toISO t) = Date t"
  shows "restorableStore toISO parseDate (snd (SubmitAttemptTool_execute numStr clk inp sm))"
proof (cases "map_of (missions sm) (sub_missionId inp)")
  case None
  then show ?thesis using r by (simp add: submit_not_found)
next
  case (Some m)
  from stored_consistent [OF c Some] have idm: "missionId (config m) = sub_missionId inp"
    and nonneg: "0 \<le> currentAttempt m"
    by (simp_all add: attemptsConsistent_def)
  from stored_restorable [OF r Some] have rm: "restorableMission toISO parseDate m" .
  let ?max = "case maxAttempts (config m) of None \<Rightarrow> 10 | Some n \<Rightarrow> n"
  show ?thesis
  proof (cases "state m = IN_PROGRESS")
    case False
    then show ?thesis using Some r by (simp add: submit_not_in_progress)
  next
    case True
    consider (over) "?max < currentAttempt m" | (at) "currentAttempt m = ?max"
      | (below) "currentAttempt m < ?max"
      by linarith
    then show ?thesis
    proof cases
      case over
      then obtain e where "SubmitAttemptTool_execute numStr clk inp sm = (SubmitError e, sm)"
        using submit_counter_overshoot [OF Some True, of numStr clk] by blast
      then show ?thesis using r by simp
    next
      case at
      have "restorableMission toISO parseDate
          (m\<lparr>state := FAILED, completedAt := Some (Date (clk 0)), success := Some False,
             errorMessage := Some ''Maximum attempts exceeded'', updatedAt := Date (clk 1)\<rparr>)"
        using rm rt by (simp add: restorableMission_def)
      from restorableStore_update [OF r this] show ?thesis
        by (simp add: submit_exhausted [OF Some idm True nonneg at])
    next
      case below
      show ?thesis
      proof (cases "validate numStr (Date (clk 0)) (criteria (config m)) (sub_output inp) (sub_value inp)")
        case (Inl e)
        then show ?thesis
          using r by (simp add: submit_validate_throws [where clk = clk, OF Some True nonneg below Inl])
      next
        case (Inr vr)
        from validate_timestamp [OF Inr] have ts: "timestamp vr = Date (clk 0)" .
        have a: "restorableAttempt toISO parseDate (newAttempt clk inp (currentAttempt m + 1) vr)"
          using rt ts by (simp add: restorableAttempt_def newAttempt_def)
        have 1: "restorableMission toISO parseDate
            (m\<lparr>attempts := attempts m @ [newAttempt clk inp (currentAttempt m + 1) vr],
               currentAttempt := currentAttempt m + 1,
               state := COMPLETED, completedAt := Some (Date (clk 3)), success := Some True,
               updatedAt := Date (clk 4)\<rparr>)"
          using rm rt a by (simp add: restorableMission_def)
        have 2: "restorableMission toISO parseDate
            (m\<lparr>attempts := attempts m @ [newAttempt clk inp (currentAttempt m + 1) vr],
               currentAttempt := currentAttempt m + 1,
               updatedAt := Date (clk 3)\<rparr>)"
          using rm rt a by (simp add: restorableMission_def)
        show ?thesis
          using restorableStore_update [OF r 1] restorableStore_update [OF r 2]
          by (simp add: submit_accepted [where clk = clk, OF Some idm True nonneg below Inr])
      qed
    qed
  qed
qed

lemma abort_restorable:
  assumes c: "storeConsistent sm" and r: "restorableStore toISO parseDate sm"
    and rt: "\<forall>t. toISO t \<noteq> [] \<and> parseDate (toISO t) = Date t"
  shows "restorableStore toISO parseDate (snd (AbortMissionTool_execute clk inp sm))"
proof (cases "map_of (missions sm) (ab_missionId inp)")
  case None
  then show ?thesis using r by (simp add: AbortMissionTool_execute_def getMission_def)
next
  case (Some m)
  from stored_consistent [OF c Some] have idm: "missionId (config m) = ab_missionId inp"
    by simp
  from stored_restorable [OF r Some] have rm: "restorableMission toISO parseDate m" .
  show ?thesis
  proof (cases "state m = COMPLETED \<or> state m = FAILED")
    case True
    then show ?thesis using abort_completed_or_failed [OF Some True] r by simp
  next
    case False
    have "restorableMission toISO parseDate
        (m\<lparr>state := ABORTED, completedAt := Some (Date (clk 0)), success := Some False,
           errorMessage := Some (abortReason (ab_reason inp)), updatedAt := Date (clk 1)\<rparr>)"
      using rm rt by (simp add: restorableMission_def)
    from restorableStore_update [OF r this] show ?thesis
      using False by (simp add: abort_other_states [OF Some idm, of clk])
  qed
qed

lemma define_restorable:
  assumes r: "restorableStore toISO parseDate sm"
    and rt: "\<forall>t. toISO t \<noteq> [] \<and> parseDate (toISO t) = Date t"
  shows "restorableStore toISO parseDate (snd (DefineMissionTool_execute uuid clk inp sm))"
proof (cases "DefineMissionTool_execute uuid clk inp sm")
  case (Pair res sm')
  show ?thesis
  proof (cases res)
    case (DefineOk mid)
    from define_ok [OF Pair [unfolded DefineOk]] obtain m' where
      s: "sm' = debouncedSave (sm\<lparr>missions := map_set uuid m' (missions sm)\<rparr>)"
      and m': "createdAt m' = Date (clk 0)" "updatedAt m' = Date (clk 1)" "attempts m' = []"
        "completedAt m' = None"
      by auto
    from m' rt have "restorableMission toISO parseDate m'"
      by (simp add: restorableMission_def)
    from restorableStore_update [OF r this] show ?thesis
      using Pair s by simp
  next
    case (DefineError e)
    then have "sm' = sm"
      using Pair by (auto simp: DefineMissionTool_execute_def split: sum.splits)
    then show ?thesis using Pair r by simp
  qed
qed

lemma run_restorable:
  assumes rt: "\<forall>t. toISO t \<noteq> [] \<and> parseDate (toISO t) = Date t"
  shows "storeConsistent sm \<Longrightarrow> restorableStore toISO parseDate sm
     \<Longrightarrow> restorableStore toISO parseDate (run numStr ops sm)"
proof (induction ops arbitrary: sm)
  case Nil
  then show ?case by simp
next
  case (Cons op ops)
  from step_consistent [OF Cons.prems(1), of numStr op "[]"]
  have c: "storeConsistent (step numStr op sm)"
    by simp
  have "restorableStore toISO parseDate (step numStr op sm)"
  proof (cases op)
    case (OpDefine uuid clk inp)
    then show ?thesis using define_restorable [OF Cons.prems(2) rt] by simp
  next
    case (OpSubmit clk inp)
    then show ?thesis using submit_restorable [OF Cons.prems rt] by simp
  next
    case (OpAbort clk inp)
    then show ?thesis using abort_restorable [OF Cons.prems rt] by simp
  qed
  from Cons.IH [OF c this] show ?case by simp
qed

lemma tool_built_store_restorable:
  assumes "\<forall>t. toISO t \<noteq> [] \<and> parseDate (toISO t) = Date t"
  shows "restorableStore toISO parseDate (run numStr ops (newStateManager cfg))"
  using run_restorable [OF assms new_store_consistent]
  by (simp add: restorableStore_def newStateManager_def)


text \<open>
  The claim as stated, for every store in memory, fails. Loading a snapshot whose text of
  a creation date is no date gives a store with an invalid date: \<^verbatim>\<open>deserializeMission\<close>
  does not check what \<^verbatim>\<open>new Date\<close> returns. Serializing that store throws the
  \<^verbatim>\<open>RangeError\<close> of \<^verbatim>\<open>toISOString\<close>, so there is no snapshot to restore it from.
\<close>

theorem C4_counterexample:
  "missions (deserializeState ex_parseDate ex_damagedSnapshot (newStateManager ex_stateConfig)) =
     [(''m0'', ex_fresh\<lparr>createdAt := InvalidDate\<rparr>)]
   \<and> serializeState ex_toISO 3000
        (deserializeState ex_parseDate ex_damagedSnapshot (newStateManager ex_stateConfig)) =
     Inl RangeError"
  by (simp add: deserializeState_def ex_damagedSnapshot_def deserializeMission_def
      ex_parseDate_def ex_isoTable_def ex_fresh_def ex_mission_def newStateManager_def
      serializeState_def serializeMission_def toISOString_def ex_config_def)


section \<open>The backup after consecutive flushes\<close>










end
